theory Spec2Isabelle
  imports Complex_Main
begin

section \<open>GLSL vectors over the reals\<close>

text \<open>
  The shaders compute on \<^verbatim>\<open>float\<close>, \<^verbatim>\<open>vec3\<close> and \<^verbatim>\<open>vec4\<close>.  The model takes
  the reals for \<^verbatim>\<open>float\<close> (no rounding, no infinities) and tuples for the vectors.
  Operations that GLSL leaves undefined (normalising the zero vector, dividing by zero)
  are made explicit as \<open>None\<close>.
\<close>

type_synonym vec3 = "real \<times> real \<times> real"

fun vadd :: "vec3 \<Rightarrow> vec3 \<Rightarrow> vec3" where
  "vadd (a, b, c) (x, y, z) = (a + x, b + y, c + z)"

fun vsub :: "vec3 \<Rightarrow> vec3 \<Rightarrow> vec3" where
  "vsub (a, b, c) (x, y, z) = (a - x, b - y, c - z)"

fun smul :: "vec3 \<Rightarrow> real \<Rightarrow> vec3" where
  "smul (x, y, z) k = (x * k, y * k, z * k)"

fun sadd :: "vec3 \<Rightarrow> real \<Rightarrow> vec3" where
  "sadd (x, y, z) k = (x + k, y + k, z + k)"

fun dot :: "vec3 \<Rightarrow> vec3 \<Rightarrow> real" where
  "dot (a, b, c) (x, y, z) = a * x + b * y + c * z"

definition vlength :: "vec3 \<Rightarrow> real" where
  "vlength v = sqrt (dot v v)"

fun cross :: "vec3 \<Rightarrow> vec3 \<Rightarrow> vec3" where
  "cross (a, b, c) (x, y, z) = (b * z - c * y, c * x - a * z, a * y - b * x)"

definition vneg :: "vec3 \<Rightarrow> vec3" where
  "vneg v = smul v (- 1)"

text \<open>
  \<^verbatim>\<open>normalize(v)\<close> is \<^verbatim>\<open>v / length(v)\<close>; on the zero vector GLSL leaves the
  result undefined (a division of zero by zero), which the model returns as \<open>None\<close>.
  (The name carries a 3 because \<open>normalize\<close> is a constant of the library.)
\<close>

definition normalize3 :: "vec3 \<Rightarrow> vec3 option" where
  "normalize3 v = (if vlength v = 0 then None else Some (smul v (1 / vlength v)))"

definition glsl_floor :: "real \<Rightarrow> real" where
  "glsl_floor x = of_int \<lfloor>x\<rfloor>"

text \<open>\<^verbatim>\<open>step(edge, x)\<close> is 0 when \<^verbatim>\<open>x < edge\<close> and 1 otherwise.\<close>

definition glsl_step :: "real \<Rightarrow> real \<Rightarrow> real" where
  "glsl_step edge x = (if x < edge then 0 else 1)"

text \<open>\<^verbatim>\<open>mod(x, y)\<close> is \<^verbatim>\<open>x - y * floor(x / y)\<close>.\<close>

definition glsl_mod :: "real \<Rightarrow> real \<Rightarrow> real" where
  "glsl_mod x y = x - y * glsl_floor (x / y)"

definition clamp :: "real \<Rightarrow> real \<Rightarrow> real \<Rightarrow> real" where
  "clamp x lo hi = min (max x lo) hi"

definition smoothstep :: "real \<Rightarrow> real \<Rightarrow> real \<Rightarrow> real" where
  "smoothstep e0 e1 x =
     (let t = clamp ((x - e0) / (e1 - e0)) 0 1 in t * t * (3 - 2 * t))"

text \<open>\<^verbatim>\<open>mix(x, y, a)\<close> is \<^verbatim>\<open>x * (1 - a) + y * a\<close>, componentwise.\<close>

definition mix :: "vec3 \<Rightarrow> vec3 \<Rightarrow> real \<Rightarrow> vec3" where
  "mix x y a = vadd (smul x (1 - a)) (smul y a)"

text \<open>
  \<^verbatim>\<open>pow(x, y)\<close> is defined in GLSL for a positive base (and for a zero base with a
  positive exponent); the shaders call it on \<^verbatim>\<open>1.0 - normalizedDist\<close>, which lies
  strictly between 0 and 1 where it is evaluated.
\<close>

definition pow :: "real \<Rightarrow> real \<Rightarrow> real" where
  "pow x y = x powr y"

type_synonym vec4 = "real \<times> real \<times> real \<times> real"

fun v4map :: "(real \<Rightarrow> real) \<Rightarrow> vec4 \<Rightarrow> vec4" where
  "v4map f (a, b, c, d) = (f a, f b, f c, f d)"

fun v4zip :: "(real \<Rightarrow> real \<Rightarrow> real) \<Rightarrow> vec4 \<Rightarrow> vec4 \<Rightarrow> vec4" where
  "v4zip f (a, b, c, d) (x, y, z, w) = (f a x, f b y, f c z, f d w)"

fun dot4 :: "vec4 \<Rightarrow> vec4 \<Rightarrow> real" where
  "dot4 (a, b, c, d) (x, y, z, w) = a * x + b * y + c * z + d * w"

fun v3map :: "(real \<Rightarrow> real) \<Rightarrow> vec3 \<Rightarrow> vec3" where
  "v3map f (a, b, c) = (f a, f b, f c)"

section \<open>Simplex noise\<close>

text \<open>
  \<^verbatim>\<open>snoise\<close> and its helpers, as they stand in \<^verbatim>\<open>snoiseGLSL\<close> of the compute shaders and
  (the same text) in the vertex shader.
\<close>

definition mod289 :: "real \<Rightarrow> real" where
  "mod289 x = x - glsl_floor (x * (1 / 289)) * 289"

definition permute :: "vec4 \<Rightarrow> vec4" where
  "permute x = v4map (\<lambda>c. mod289 (((c * 34) + 1) * c)) x"

definition taylorInvSqrt :: "vec4 \<Rightarrow> vec4" where
  "taylorInvSqrt r = v4map (\<lambda>c. 1.79284291400159 - 0.85373472095314 * c) r"

definition snoise :: "vec3 \<Rightarrow> real" where
  "snoise v =
     (let Cx = 1 / 6; Cy = 1 / 3;
          i = v3map glsl_floor (sadd v (dot v (Cy, Cy, Cy)));
          x0 = sadd (vsub v i) (dot i (Cx, Cx, Cx));
          (x0x, x0y, x0z) = x0;
          (gx, gy, gz) = (glsl_step x0y x0x, glsl_step x0z x0y, glsl_step x0x x0z);
          (lx, ly, lz) = (1 - gx, 1 - gy, 1 - gz);
          i1 = (min gx lz, min gy lx, min gz ly);
          i2 = (max gx lz, max gy lx, max gz ly);
          (i1x, i1y, i1z) = i1;
          (i2x, i2y, i2z) = i2;
          x1 = sadd (vsub x0 i1) Cx;
          x2 = sadd (vsub x0 i2) Cy;
          x3 = sadd x0 (- 0.5);
          (ix, iy, iz) = v3map mod289 i;
          p = permute (v4zip (+) (v4map (\<lambda>c. c + ix)
                (permute (v4zip (+) (v4map (\<lambda>c. c + iy)
                   (permute (v4map (\<lambda>c. iz + c) (0, i1z, i2z, 1))))
                   (0, i1y, i2y, 1))))
                (0, i1x, i2x, 1));
          n_' = 0.142857142857;
          (nsx, nsy, nsz) = (n_' * 2 - 0, n_' * 0.5 - 1, n_' * 1 - 0);
          j = v4map (\<lambda>c. c - 49 * glsl_floor (c * nsz * nsz)) p;
          x_' = v4map (\<lambda>c. glsl_floor (c * nsz)) j;
          y_' = v4map glsl_floor (v4zip (\<lambda>jc xc. jc - 7 * xc) j x_');
          x = v4map (\<lambda>c. c * nsx + nsy) x_';
          y = v4map (\<lambda>c. c * nsx + nsy) y_';
          h = v4zip (\<lambda>xc yc. 1 - \<bar>xc\<bar> - \<bar>yc\<bar>) x y;
          (xx, xy, xz, xw) = x;
          (yx, yy, yz, yw) = y;
          (hx, hy, hz, hw) = h;
          b0 = (xx, xy, yx, yy);
          b1 = (xz, xw, yz, yw);
          (s0x, s0y, s0z, s0w) = v4map (\<lambda>c. glsl_floor c * 2 + 1) b0;
          (s1x, s1y, s1z, s1w) = v4map (\<lambda>c. glsl_floor c * 2 + 1) b1;
          (shx, shy, shz, shw) = v4map (\<lambda>c. - glsl_step c 0) h;
          a0 = (xx + s0x * shx, yx + s0z * shx, xy + s0y * shy, yy + s0w * shy);
          a1 = (xz + s1x * shz, yz + s1z * shz, xw + s1y * shw, yw + s1w * shw);
          (a0x, a0y, a0z, a0w) = a0;
          (a1x, a1y, a1z, a1w) = a1;
          p0 = (a0x, a0y, hx);
          p1 = (a0z, a0w, hy);
          p2 = (a1x, a1y, hz);
          p3 = (a1z, a1w, hw);
          (nx, ny, nz, nw) = taylorInvSqrt (dot p0 p0, dot p1 p1, dot p2 p2, dot p3 p3);
          p0 = smul p0 nx;
          p1 = smul p1 ny;
          p2 = smul p2 nz;
          p3 = smul p3 nw;
          m = v4map (\<lambda>c. max (0.6 - c) 0) (dot x0 x0, dot x1 x1, dot x2 x2, dot x3 x3);
          m = v4zip (*) m m
      in 42 * dot4 (v4zip (*) m m) (dot p0 x0, dot p1 x1, dot p2 x2, dot p3 x3))"

section \<open>Position compute shader\<close>




section \<open>Velocity compute shader\<close>

text \<open>
  The uniforms the velocity compute shader and the vertex shader share; each shader's
  own uniforms extend this record.  (\<^verbatim>\<open>uGesture\<close> is declared by the gesture-aware
  revision of the velocity shader and by the vertex shader.)
\<close>

record hand_uniforms =
  uTime :: real
  uLeftHand :: vec3
  uRightHand :: vec3
  uHandRadius :: real
  uRepulsionForce :: real
  uAttractionForce :: real
  uGesture :: int
  uAudioBass :: real
  uAudioEnergy :: real

record velocity_uniforms = hand_uniforms +
  uDeltaTime :: real

text \<open>
  The argument of the three noise samples of a hand block:
  \<^verbatim>\<open>worldPos * 0.03 + uTime * 0.5 + offset\<close> (a vector plus scalars).
\<close>

definition noiseCoord :: "vec3 \<Rightarrow> real \<Rightarrow> real \<Rightarrow> vec3" where
  "noiseCoord worldPos time offset = sadd (sadd (smul worldPos 0.03) (time * 0.5)) offset"

text \<open>
  One hand block of \<^verbatim>\<open>main\<close> in the first revision of \<^verbatim>\<open>velocityComputeShader\<close>: what
  the block adds to \<^verbatim>\<open>handForce\<close>.  The block is written twice in the source, for
  \<^verbatim>\<open>uLeftHand\<close> with the noise offsets 0, 100, 200 and for \<^verbatim>\<open>uRightHand\<close> with 300, 400,
  500.
\<close>

definition handRepulsion ::
  "'a hand_uniforms_scheme \<Rightarrow> vec3 \<Rightarrow> vec3 \<Rightarrow> real \<Rightarrow> real \<Rightarrow> real \<Rightarrow> vec3 option" where
  "handRepulsion u worldPos hand o1 o2 o3 =
     (if vlength hand > 0.001 then
        (let toParticle = vsub worldPos hand;
             dist = vlength toParticle
         in if dist < uHandRadius u \<and> dist > 0.01 then
              (let normalizedDist = dist / uHandRadius u;
                   force = pow (1 - normalizedDist) 3
               in case normalize3 toParticle of
                    None \<Rightarrow> None
                  | Some pushDir \<Rightarrow>
                      (let n1 = snoise (noiseCoord worldPos (uTime u) o1);
                           n2 = snoise (noiseCoord worldPos (uTime u) o2);
                           n3 = snoise (noiseCoord worldPos (uTime u) o3);
                           pushDir = vadd pushDir (smul (n1, n2, n3) 0.3)
                       in case normalize3 pushDir of
                            None \<Rightarrow> None
                          | Some pushDir \<Rightarrow>
                              (let pushDir = vadd pushDir (0, 0.1 * force, 0)
                               in Some (smul (smul (smul pushDir force) (uRepulsionForce u)) 200))))
            else Some (0, 0, 0))
      else Some (0, 0, 0))"

text \<open>
  The audio block: \<^verbatim>\<open>radialDir = dist > 0.01 ? normalize(displacement) : vec3(0, 1, 0)\<close>
  and the impulse \<^verbatim>\<open>radialDir * uAudioBass * 30.0\<close> added when \<^verbatim>\<open>uAudioBass > 0.01\<close>.
\<close>

definition radialDir :: "vec3 \<Rightarrow> vec3 option" where
  "radialDir displacement =
     (let dist = vlength displacement
      in if dist > 0.01 then normalize3 displacement else Some (0, 1, 0))"

definition audioImpulse :: "'a hand_uniforms_scheme \<Rightarrow> vec3 \<Rightarrow> vec3 option" where
  "audioImpulse u displacement =
     (if uAudioBass u > 0.01 then
        (case radialDir displacement of
           None \<Rightarrow> None
         | Some rd \<Rightarrow> Some (smul (smul rd (uAudioBass u)) 30))
      else Some (0, 0, 0))"

text \<open>
  \<^verbatim>\<open>main\<close> of the first revision: the new velocity of one texel, from the texel's
  velocity, displacement and original position.
\<close>

definition velocityComputeShader ::
  "velocity_uniforms \<Rightarrow> vec3 \<Rightarrow> vec3 \<Rightarrow> vec3 \<Rightarrow> vec3 option" where
  "velocityComputeShader u velocity displacement originalPos =
     (let worldPos = vadd originalPos displacement;
          dt = min (uDeltaTime u) 0.05;
          springK = 2 + uAttractionForce u * 4;
          springForce = smul (vneg displacement) springK;
          handForce = (0, 0, 0)
      in case handRepulsion u worldPos (uLeftHand u) 0 100 200 of
           None \<Rightarrow> None
         | Some fl \<Rightarrow>
         (case handRepulsion u worldPos (uRightHand u) 300 400 500 of
           None \<Rightarrow> None
         | Some fr \<Rightarrow>
         (case audioImpulse u displacement of
           None \<Rightarrow> None
         | Some fa \<Rightarrow>
             (let handForce = vadd (vadd (vadd handForce fl) fr) fa;
                  velocity = vadd velocity (smul (vadd springForce handForce) dt);
                  velocity = smul velocity 0.95
              in Some velocity))))"

text \<open>
  \<^verbatim>\<open>computeHandForce\<close> of the gesture-aware revision.  Gesture modes: 0 none, 1 open
  (repel), 2 closed (attract), 3 pinch (vortex), 4 point (none), 5 peace (burst).
\<close>

definition computeHandForce ::
  "'a hand_uniforms_scheme \<Rightarrow> vec3 \<Rightarrow> vec3 \<Rightarrow> real \<Rightarrow> vec3 option" where
  "computeHandForce u worldPos handPos seedOffset =
     (let force = (0, 0, 0)
      in if vlength handPos < 0.001 then Some force
         else
           (let toParticle = vsub worldPos handPos;
                dist = vlength toParticle
            in if dist \<ge> uHandRadius u \<or> dist < 0.01 then Some force
               else
                 (let normalizedDist = dist / uHandRadius u;
                      falloff = pow (1 - normalizedDist) 3;
                      n1 = snoise (noiseCoord worldPos (uTime u) seedOffset);
                      n2 = snoise (noiseCoord worldPos (uTime u) (seedOffset + 100));
                      n3 = snoise (noiseCoord worldPos (uTime u) (seedOffset + 200))
                  in if uGesture u = 0 \<or> uGesture u = 4 then Some force
                     else if uGesture u = 1 then
                       (case normalize3 toParticle of
                          None \<Rightarrow> None
                        | Some pushDir \<Rightarrow>
                            (case normalize3 (vadd pushDir (smul (n1, n2, n3) 0.3)) of
                               None \<Rightarrow> None
                             | Some pushDir \<Rightarrow>
                                 (let pushDir = vadd pushDir (0, 0.1 * falloff, 0)
                                  in Some (smul (smul (smul pushDir falloff) (uRepulsionForce u)) 60))))
                     else if uGesture u = 2 then
                       (case normalize3 toParticle of
                          None \<Rightarrow> None
                        | Some d \<Rightarrow>
                            (case normalize3 (vadd (vneg d) (smul (n1, n2, n3) 0.15)) of
                               None \<Rightarrow> None
                             | Some pullDir \<Rightarrow>
                                 Some (smul (smul (smul pullDir falloff) (uAttractionForce u)) 50)))
                     else if uGesture u = 3 then
                       (let up = (0, 1, 0)
                        in case normalize3 (cross up toParticle) of
                             None \<Rightarrow> None
                           | Some tangent \<Rightarrow>
                               (case normalize3 toParticle of
                                  None \<Rightarrow> None
                                | Some d \<Rightarrow>
                                    (let inward = smul (vneg d) 0.3;
                                         orbitDir = vadd tangent inward;
                                         orbitDir = vadd orbitDir (smul (n1, n2, n3) 0.1)
                                     in case normalize3 orbitDir of
                                          None \<Rightarrow> None
                                        | Some orbitDir \<Rightarrow>
                                            Some (smul (smul (smul orbitDir falloff)
                                                    (uRepulsionForce u)) 45))))
                     else if uGesture u = 5 then
                       (case normalize3 toParticle of
                          None \<Rightarrow> None
                        | Some burstDir \<Rightarrow>
                            (case normalize3 (vadd burstDir (smul (n1, n2, n3) 0.5)) of
                               None \<Rightarrow> None
                             | Some burstDir \<Rightarrow>
                                 Some (smul (smul (smul burstDir falloff) (uRepulsionForce u)) 120)))
                     else Some force)))"

definition velocityComputeShader_v2 ::
  "velocity_uniforms \<Rightarrow> vec3 \<Rightarrow> vec3 \<Rightarrow> vec3 \<Rightarrow> vec3 option" where
  "velocityComputeShader_v2 u velocity displacement originalPos =
     (let worldPos = vadd originalPos displacement;
          dt = min (uDeltaTime u) 0.05;
          springK = 6 + uAttractionForce u * 8;
          springForce = smul (vneg displacement) springK;
          handForce = (0, 0, 0)
      in case computeHandForce u worldPos (uLeftHand u) 0 of
           None \<Rightarrow> None
         | Some fl \<Rightarrow>
         (case computeHandForce u worldPos (uRightHand u) 300 of
           None \<Rightarrow> None
         | Some fr \<Rightarrow>
         (case audioImpulse u displacement of
           None \<Rightarrow> None
         | Some fa \<Rightarrow>
             (let handForce = vadd (vadd (vadd handForce fl) fr) fa;
                  velocity = vadd velocity (smul (vadd springForce handForce) dt);
                  velocity = smul velocity 0.85
              in Some velocity))))"

section \<open>Vertex shader\<close>

type_synonym mat4 = "vec4 \<times> vec4 \<times> vec4 \<times> vec4"

text \<open>A matrix is held as its four rows; \<^verbatim>\<open>m * v\<close> is the matrix-vector product.\<close>

fun mat4_mul :: "mat4 \<Rightarrow> vec4 \<Rightarrow> vec4" where
  "mat4_mul (r0, r1, r2, r3) v = (dot4 r0 v, dot4 r1 v, dot4 r2 v, dot4 r3 v)"

text \<open>
  \<^verbatim>\<open>texturePhysics\<close> is a sampler: a map from a texture coordinate to the texel's
  \<^verbatim>\<open>xyz\<close>.  The uniform starts out as \<^verbatim>\<open>null\<close>.
\<close>

type_synonym sampler2D = "real \<times> real \<Rightarrow> vec3"

record vertex_uniforms = hand_uniforms +
  uSize :: real
  uSpeed :: real
  uTurbulence :: real
  uEffectIntensity :: real
  uEffect :: int
  uRotateAxisX :: bool
  uRotateAxisY :: bool
  uRotateAxisZ :: bool
  uRotateSpeed :: real
  uLightingMode :: int
  uLightingSpeed :: real
  uLightingIntensity :: real
  uLightingRadius :: real
  uTransitionProgress :: real
  uFloatOffset :: real
  texturePhysics :: "sampler2D option"
  uUseGPGPU :: bool
  uAudioMid :: real
  uAudioTreble :: real

text \<open>The built-in uniforms the renderer supplies with every draw.\<close>

record camera_uniforms =
  modelViewMatrix :: mat4
  projectionMatrix :: mat4

record vertex_attributes =
  originalPosition :: vec3
  targetPosition :: vec3
  color :: vec3
  targetColor :: vec3
  randomOffset :: real
  texCoord :: "real \<times> real"

text \<open>\<^verbatim>\<open>length(originalPos.xz)\<close>.\<close>

definition length2 :: "real \<Rightarrow> real \<Rightarrow> real" where
  "length2 x z = sqrt (x * x + z * z)"

text \<open>
  \<^verbatim>\<open>applyEffect(pos, originalPos, time)\<close>; the attribute \<^verbatim>\<open>randomOffset\<close>, which the
  shader reads as a global, is the second argument.
\<close>

fun applyEffect ::
  "vertex_uniforms \<Rightarrow> real \<Rightarrow> vec3 \<Rightarrow> vec3 \<Rightarrow> real \<Rightarrow> vec3 option" where
  "applyEffect u rnd (px, py, pz) (ox, oy, oz) time =
     (let pos = (px, py, pz);
          originalPos = (ox, oy, oz);
          result = pos;
          t = time * uSpeed u;
          intensity = uEffectIntensity u
      in if uEffect u = 0 then Some result
         else if uEffect u = 1 then
           (let ry = py + sin (px * 0.5 + t) * intensity * 20;
                ry = ry + sin (pz * 0.5 + t * 0.8) * intensity * 15
            in Some (px, ry, pz))
         else if uEffect u = 2 then
           (let angle = t * 0.5 + length2 ox oz * 0.1;
                radius = length2 ox oz;
                offset = (cos angle * radius - ox,
                          sin (t * 0.3 + rnd * 6.28) * intensity * 10,
                          sin angle * radius - oz)
            in Some (vadd originalPos (smul offset intensity)))
         else if uEffect u = 3 then
           (case normalize3 pos of
              None \<Rightarrow> None
            | Some dir \<Rightarrow>
                (let dist = vlength pos
                 in Some (vadd pos (smul (smul (smul dir (sin (t * 2))) intensity) 30))))
         else if uEffect u = 4 then
           (case normalize3 pos of
              None \<Rightarrow> None
            | Some dir \<Rightarrow>
                (let dist = vlength pos
                 in Some (vsub pos (smul (smul (smul (smul dir (sin (t * 2))) intensity) 20)
                                      (1 - dist * 0.01)))))
         else if uEffect u = 5 then
           Some (px + snoise (sadd (smul pos 0.02) (t * 0.5)) * intensity * 30,
                 py + snoise (sadd (sadd (smul pos 0.02) (t * 0.5)) 100) * intensity * 30,
                 pz + snoise (sadd (sadd (smul pos 0.02) (t * 0.5)) 200) * intensity * 30)
         else if uEffect u = 6 then
           (let angle = t * 0.5 + oy * 0.05;
                radius = length2 ox oz;
                offset = (cos angle * radius - ox, 0, sin angle * radius - oz)
            in Some (vadd originalPos (smul offset intensity)))
         else if uEffect u = 7 then
           (let pulse = sin (t * 3 + rnd * 6.28) * 0.5 + 0.5
            in case normalize3 pos of
                 None \<Rightarrow> None
               | Some dir \<Rightarrow> Some (vadd pos (smul (smul (smul dir pulse) intensity) 20)))
         else if uEffect u = 8 then
           Some (px + sin (py * 0.1 + t) * intensity * 15,
                 py,
                 pz + cos (py * 0.1 + t * 0.7) * intensity * 15)
         else if uEffect u = 9 then
           (let angle = uTime u * uRotateSpeed u * intensity;
                cosA = cos angle;
                sinA = sin angle;
                rotated = originalPos;
                rotated = (if uRotateAxisX u then
                             (case rotated of (tx, ty, tz) \<Rightarrow>
                                (tx, ty * cosA - tz * sinA, ty * sinA + tz * cosA))
                           else rotated);
                rotated = (if uRotateAxisY u then
                             (case rotated of (tx, ty, tz) \<Rightarrow>
                                (tx * cosA + tz * sinA, ty, - tx * sinA + tz * cosA))
                           else rotated);
                rotated = (if uRotateAxisZ u then
                             (case rotated of (tx, ty, tz) \<Rightarrow>
                                (tx * cosA - ty * sinA, tx * sinA + ty * cosA, tz))
                           else rotated);
                turbulenceOffset = vsub pos originalPos
            in Some (vadd rotated turbulenceOffset))
         else if uEffect u = 10 then
           Some (px + sin (t * 0.3) * intensity * 15,
                 py + uFloatOffset u * intensity * 50,
                 pz + cos (t * 0.2) * intensity * 10)
         else Some result)"

text \<open>
  One hand block of \<^verbatim>\<open>applyHandInteraction\<close>: what the block adds to \<^verbatim>\<open>result\<close>.  As in
  the compute shader the block is written once per hand, with the noise offsets 0, 100,
  200 and 300, 400, 500.
\<close>

definition handPush ::
  "'a hand_uniforms_scheme \<Rightarrow> vec3 \<Rightarrow> vec3 \<Rightarrow> real \<Rightarrow> real \<Rightarrow> real \<Rightarrow> vec3 option" where
  "handPush u pos hand o1 o2 o3 =
     (if vlength hand > 0.001 then
        (let toParticle = vsub pos hand;
             dist = vlength toParticle
         in if dist < uHandRadius u \<and> dist > 0.01 then
              (let normalizedDist = dist / uHandRadius u;
                   force = pow (1 - normalizedDist) 3
               in case normalize3 toParticle of
                    None \<Rightarrow> None
                  | Some pushDir \<Rightarrow>
                      (let n1 = snoise (noiseCoord pos (uTime u) o1);
                           n2 = snoise (noiseCoord pos (uTime u) o2);
                           n3 = snoise (noiseCoord pos (uTime u) o3);
                           pushDir = vadd pushDir (smul (n1, n2, n3) 0.3)
                       in case normalize3 pushDir of
                            None \<Rightarrow> None
                          | Some pushDir \<Rightarrow>
                              (let pushDir = vadd pushDir (0, 0.1 * force, 0);
                                   strength = force * uRepulsionForce u * 100
                               in Some (smul pushDir strength))))
            else Some (0, 0, 0))
      else Some (0, 0, 0))"

definition applyHandInteraction :: "'a hand_uniforms_scheme \<Rightarrow> vec3 \<Rightarrow> vec3 option" where
  "applyHandInteraction u pos =
     (let result = pos
      in case handPush u pos (uLeftHand u) 0 100 200 of
           None \<Rightarrow> None
         | Some dl \<Rightarrow>
             (case handPush u pos (uRightHand u) 300 400 500 of
                None \<Rightarrow> None
              | Some dr \<Rightarrow> Some (vadd (vadd result dl) dr)))"

fun calculateLightingGlow :: "vertex_uniforms \<Rightarrow> vec3 \<Rightarrow> real \<Rightarrow> real" where
  "calculateLightingGlow u (px, py, pz) time =
     (let pos = (px, py, pz);
          glow = 0;
          t = time * uLightingSpeed u
      in if uLightingMode u = 0 then 0
         else
           (let glow =
              (if uLightingMode u = 1 then
                 (let wavePos = glsl_mod (t * 100) 600 - 300;
                      dist = \<bar>px - wavePos\<bar>
                  in if dist < uLightingRadius u
                     then (1 - dist / uLightingRadius u) * uLightingIntensity u else glow)
               else if uLightingMode u = 2 then
                 (let expandRadius = glsl_mod (t * 150) 400;
                      dist = vlength pos;
                      diff = \<bar>dist - expandRadius\<bar>;
                      glow = (if diff < uLightingRadius u
                              then (1 - diff / uLightingRadius u) * uLightingIntensity u
                              else glow);
                      fadeOut = 1 - smoothstep 280 400 expandRadius
                  in glow * fadeOut)
               else if uLightingMode u = 3 then
                 (let maxRadius = 400;
                      contractRadius = maxRadius - glsl_mod (t * 150) maxRadius;
                      dist = vlength pos;
                      diff = \<bar>dist - contractRadius\<bar>;
                      glow = (if diff < uLightingRadius u
                              then (1 - diff / uLightingRadius u) * uLightingIntensity u
                              else glow);
                      fadeOut = smoothstep 0 120 contractRadius
                  in glow * fadeOut)
               else if uLightingMode u = 4 then
                 (sin (t * 3) * 0.5 + 0.5) * uLightingIntensity u
               else if uLightingMode u = 5 then
                 (let wave = sin (px * 0.05 + pz * 0.05 + t * 2)
                  in (wave * 0.5 + 0.5) * uLightingIntensity u)
               else glow)
            in clamp glow 0 1))"

text \<open>
  The point size of \<^verbatim>\<open>main\<close>: \<^verbatim>\<open>distanceScale = 300.0 / -mvPosition.z\<close>, the clamp of
  \<^verbatim>\<open>uSize * distanceScale\<close> to 1..50, then the factors of the lighting glow and of the
  audio bands.  A vertex with \<^verbatim>\<open>mvPosition.z = 0\<close> divides by zero (\<open>None\<close>).
\<close>

definition pointSize :: "vertex_uniforms \<Rightarrow> real \<Rightarrow> real \<Rightarrow> real option" where
  "pointSize u mvz vLightingGlow =
     (if - mvz = 0 then None
      else
        (let distanceScale = 300 / - mvz;
             gl_PointSize = uSize u * distanceScale;
             gl_PointSize = clamp gl_PointSize 1 50;
             gl_PointSize = gl_PointSize * (1 + vLightingGlow * 0.5);
             gl_PointSize = gl_PointSize * (1 + uAudioBass u * 0.5 + uAudioTreble u * 0.3)
         in Some gl_PointSize))"

record vertex_output =
  gl_Position :: vec4
  gl_PointSize :: real
  vColor :: vec3
  vOpacity :: real
  vDistance :: real
  vLightingGlow :: real
  worldPosition :: vec3

text \<open>
  \<^verbatim>\<open>main\<close> of the vertex shader.  \<open>worldPosition\<close> is the local \<^verbatim>\<open>pos\<close> that
  \<^verbatim>\<open>mvPosition\<close> is computed from; the other fields are the shader's outputs.  Sampling
  \<^verbatim>\<open>texturePhysics\<close> while it is still \<^verbatim>\<open>null\<close> is \<open>None\<close>.
\<close>

definition vertexMain ::
  "vertex_uniforms \<Rightarrow> camera_uniforms \<Rightarrow> vertex_attributes \<Rightarrow> vertex_output option" where
  "vertexMain u cam a =
     (let basePosition = mix (originalPosition a) (targetPosition a) (uTransitionProgress u);
          turbulence =
            (snoise (sadd (smul basePosition 0.01) (uTime u * 0.2)) * uTurbulence u * 10,
             snoise (sadd (sadd (smul basePosition 0.01) (uTime u * 0.2)) 100) * uTurbulence u * 10,
             snoise (sadd (sadd (smul basePosition 0.01) (uTime u * 0.2)) 200) * uTurbulence u * 10);
          pos = vadd basePosition turbulence
      in case applyEffect u (randomOffset a) pos basePosition (uTime u) of
           None \<Rightarrow> None
         | Some pos \<Rightarrow>
             (case (if uUseGPGPU u then
                      (case texturePhysics u of
                         None \<Rightarrow> None
                       | Some tex \<Rightarrow> Some (vadd pos (tex (texCoord a))))
                    else applyHandInteraction u pos) of
                None \<Rightarrow> None
              | Some pos \<Rightarrow>
                  (let glow = calculateLightingGlow u pos (uTime u);
                       mvPosition = (case pos of (x, y, z) \<Rightarrow>
                                       mat4_mul (modelViewMatrix cam) (x, y, z, 1));
                       mvz = (case mvPosition of (mx, my, mz, mw) \<Rightarrow> mz)
                   in case pointSize u mvz glow of
                        None \<Rightarrow> None
                      | Some sz \<Rightarrow>
                          Some \<lparr> gl_Position = mat4_mul (projectionMatrix cam) mvPosition,
                                 gl_PointSize = sz,
                                 vColor = mix (color a) (targetColor a) (uTransitionProgress u),
                                 vOpacity = 1,
                                 vDistance = - mvz,
                                 vLightingGlow = glow,
                                 worldPosition = pos \<rparr>)))"

section \<open>Scene: the particle sets of a shape transition\<close>





section \<open>ParticleSystem: store values, refs and uniforms\<close>

datatype ParticleEffect =
  fx_none | fx_wave | fx_spiral | fx_explode | fx_implode | fx_noise | fx_vortex
  | fx_pulse | fx_flow | fx_rotate | fx_float

datatype LightingMode = lm_none | lm_move | lm_expand | lm_contract | lm_pulse | lm_wave

fun effectToIndex :: "ParticleEffect \<Rightarrow> int" where
  "effectToIndex fx_none = 0"
| "effectToIndex fx_wave = 1"
| "effectToIndex fx_spiral = 2"
| "effectToIndex fx_explode = 3"
| "effectToIndex fx_implode = 4"
| "effectToIndex fx_noise = 5"
| "effectToIndex fx_vortex = 6"
| "effectToIndex fx_pulse = 7"
| "effectToIndex fx_flow = 8"
| "effectToIndex fx_rotate = 9"
| "effectToIndex fx_float = 10"

fun lightingModeToIndex :: "LightingMode \<Rightarrow> int" where
  "lightingModeToIndex lm_none = 0"
| "lightingModeToIndex lm_move = 1"
| "lightingModeToIndex lm_expand = 2"
| "lightingModeToIndex lm_contract = 3"
| "lightingModeToIndex lm_pulse = 4"
| "lightingModeToIndex lm_wave = 5"

record ParticleSettings =
  particleSize :: real
  particleSpeed :: real
  turbulence :: real
  transitionSpeed :: real

record RotationSettings =
  rotationSpeed :: real
  axisX :: bool
  axisY :: bool
  axisZ :: bool

record LightingSettings =
  mode :: LightingMode
  lightingSpeed :: real
  lightingIntensity :: real
  lightingRadius :: real

record HandSettings =
  enabled :: bool
  sensitivity :: real
  interactionRadius :: real
  attractionForce :: real
  repulsionForce :: real
  gestureEnabled :: bool
  gestureTransitionSpeed :: real

record AudioData =
  bass :: real
  mid :: real
  treble :: real
  energy :: real

text \<open>
  What a render of \<^verbatim>\<open>ParticleSystem\<close> reads from the store.
\<close>

record props =
  currentEffect :: ParticleEffect
  effectIntensity :: real
  particleSettings :: ParticleSettings
  rotationSettings :: RotationSettings
  lightingSettings :: LightingSettings
  handSettings :: HandSettings
  leftHand :: "vec3 option"
  rightHand :: "vec3 option"
  audioData :: "AudioData option"

datatype stage = idle | fadeOut | showNone | fadeIn

text \<open>
  The refs of the component, the uniforms of its material, and the values the latest
  render captured (\<open>rendered\<close>), which the frame callback and \<^verbatim>\<open>updateUniforms\<close> close
  over.  \<open>gpuComputeRef\<close> says whether the ref holds a renderer; \<open>posVarRef\<close> and
  \<open>velVarRef\<close> hold the uniforms of the two compute variables once they are set.  The
  frame callback only acts while \<^verbatim>\<open>materialRef.current\<close> is set, which is the case for
  every frame of a mounted component; the model describes those frames.  The colour
  and opacity uniforms of the fragment shader, the lighting-transition scalar and the
  progress of the shape transition (\<^verbatim>\<open>uTransitionProgress\<close>) are outside the model.
\<close>

record particle_system =
  floatOffsetRef :: real
  effectTransitionRef :: real
  previousEffectRef :: ParticleEffect
  previousEffectIntensityRef :: real
  effectTransitionStageRef :: stage
  targetEffectRef :: ParticleEffect
  smoothLightingSpeedRef :: real
  smoothLightingIntensityRef :: real
  smoothLightingRadiusRef :: real
  smoothLeftHandRef :: vec3
  smoothRightHandRef :: vec3
  smoothHandRadiusRef :: real
  smoothAttractionForceRef :: real
  smoothRepulsionForceRef :: real
  gpuComputeRef :: bool
  posVarRef :: "real option"
  velVarRef :: "velocity_uniforms option"
  gpuEnabledRef :: bool
  smoothSizeRef :: real
  smoothSpeedRef :: real
  smoothTurbulenceRef :: real
  material :: vertex_uniforms
  rendered :: props

text \<open>The refs' initial values and the initial \<^verbatim>\<open>uniforms\<close> of the first render.\<close>

definition mount :: "props \<Rightarrow> particle_system" where
  "mount p =
     \<lparr> floatOffsetRef = 0,
       effectTransitionRef = 0,
       previousEffectRef = fx_none,
       previousEffectIntensityRef = 0,
       effectTransitionStageRef = idle,
       targetEffectRef = fx_none,
       smoothLightingSpeedRef = 1,
       smoothLightingIntensityRef = 0.5,
       smoothLightingRadiusRef = 100,
       smoothLeftHandRef = (0, 0, 0),
       smoothRightHandRef = (0, 0, 0),
       smoothHandRadiusRef = 100,
       smoothAttractionForceRef = 0.5,
       smoothRepulsionForceRef = 0.5,
       gpuComputeRef = False,
       posVarRef = None,
       velVarRef = None,
       gpuEnabledRef = False,
       smoothSizeRef = 2,
       smoothSpeedRef = 1,
       smoothTurbulenceRef = 0.5,
       material =
         \<lparr> uTime = 0,
           uLeftHand = (0, 0, 0),
           uRightHand = (0, 0, 0),
           uHandRadius = interactionRadius (handSettings p),
           uRepulsionForce = repulsionForce (handSettings p),
           uAttractionForce = attractionForce (handSettings p),
           uGesture = 0,
           uAudioBass = 0,
           uAudioEnergy = 0,
           uSize = particleSize (particleSettings p),
           uSpeed = particleSpeed (particleSettings p),
           uTurbulence = turbulence (particleSettings p),
           uEffectIntensity = effectIntensity p,
           uEffect = effectToIndex (currentEffect p),
           uRotateAxisX = axisX (rotationSettings p),
           uRotateAxisY = axisY (rotationSettings p),
           uRotateAxisZ = axisZ (rotationSettings p),
           uRotateSpeed = rotationSpeed (rotationSettings p),
           uLightingMode = lightingModeToIndex (mode (lightingSettings p)),
           uLightingSpeed = lightingSpeed (lightingSettings p),
           uLightingIntensity = lightingIntensity (lightingSettings p),
           uLightingRadius = lightingRadius (lightingSettings p),
           uTransitionProgress = 0,
           uFloatOffset = 0,
           texturePhysics = None,
           uUseGPGPU = False,
           uAudioMid = 0,
           uAudioTreble = 0 \<rparr>,
       rendered = p \<rparr>"

text \<open>
  The body of the effect-change \<^verbatim>\<open>useEffect\<close>, run with the values of the render that
  scheduled it.
\<close>

definition effectChange :: "props \<Rightarrow> particle_system \<Rightarrow> particle_system" where
  "effectChange p s =
     (let s = (if currentEffect p \<noteq> previousEffectRef s \<and> effectTransitionStageRef s = idle
               then s\<lparr> targetEffectRef := currentEffect p,
                       effectTransitionStageRef := fadeOut,
                       effectTransitionRef := 0 \<rparr>
               else s)
      in if effectIntensity p \<noteq> previousEffectIntensityRef s
         then s\<lparr> previousEffectIntensityRef := effectIntensity p \<rparr>
         else s)"

text \<open>
  A render with new store values: React runs the effect-change \<^verbatim>\<open>useEffect\<close> when one of
  its dependencies \<^verbatim>\<open>[currentEffect, effectIntensity]\<close> differs from the previous render,
  and the callbacks close over the new values from then on.
\<close>

definition render :: "particle_system \<Rightarrow> props \<Rightarrow> particle_system" where
  "render s p =
     (let s = (if currentEffect p \<noteq> currentEffect (rendered s)
                  \<or> effectIntensity p \<noteq> effectIntensity (rendered s)
               then effectChange p s else s)
      in s\<lparr> rendered := p \<rparr>)"

text \<open>The first render: the refs' initial values, then the effects run once.\<close>

definition firstRender :: "props \<Rightarrow> particle_system" where
  "firstRender p = effectChange p (mount p)"

text \<open>\<^verbatim>\<open>Vector3.lerp(v, alpha)\<close> of three.js: \<^verbatim>\<open>this += (v - this) * alpha\<close>.\<close>

definition lerp :: "vec3 \<Rightarrow> vec3 \<Rightarrow> real \<Rightarrow> vec3" where
  "lerp this v alpha = vadd this (smul (vsub v this) alpha)"

text \<open>The frame callback, in the order of the source.  First the smoothed hand positions.\<close>

definition frameHands :: "real \<Rightarrow> particle_system \<Rightarrow> particle_system" where
  "frameHands delta s =
     (let p = rendered s;
          lerpFactor = min (delta * gestureTransitionSpeed (handSettings p) * 5) 1;
          smoothLeft =
            (case leftHand p of
               Some h \<Rightarrow>
                 if enabled (handSettings p) then lerp (smoothLeftHandRef s) h lerpFactor
                 else lerp (smoothLeftHandRef s) (0, 0, 0) lerpFactor
             | None \<Rightarrow> lerp (smoothLeftHandRef s) (0, 0, 0) lerpFactor);
          smoothRight =
            (case rightHand p of
               Some h \<Rightarrow>
                 if enabled (handSettings p) then lerp (smoothRightHandRef s) h lerpFactor
                 else lerp (smoothRightHandRef s) (0, 0, 0) lerpFactor
             | None \<Rightarrow> lerp (smoothRightHandRef s) (0, 0, 0) lerpFactor)
      in s\<lparr> smoothLeftHandRef := smoothLeft,
             smoothRightHandRef := smoothRight,
             material := (material s)\<lparr> uLeftHand := smoothLeft, uRightHand := smoothRight \<rparr> \<rparr>)"

text \<open>The effect transition: fadeOut, showNone, fadeIn.\<close>

definition frameEffect :: "real \<Rightarrow> particle_system \<Rightarrow> particle_system" where
  "frameEffect delta s =
     (let p = rendered s
      in if effectTransitionStageRef s \<noteq> idle then
           (let progress = min (effectTransitionRef s
                                + delta * transitionSpeed (particleSettings p) * 2) 1;
                s = s\<lparr> effectTransitionRef := progress \<rparr>
            in if effectTransitionStageRef s = fadeOut then
                 (let fadeOutProgress = progress;
                      s = s\<lparr> material := (material s)
                              \<lparr> uEffect := effectToIndex (previousEffectRef s),
                                uEffectIntensity := effectIntensity p * (1 - fadeOutProgress) \<rparr> \<rparr>
                  in if fadeOutProgress \<ge> 1 then
                       s\<lparr> effectTransitionStageRef := showNone,
                           effectTransitionRef := 0,
                           previousEffectRef := fx_none,
                           material := (material s)
                             \<lparr> uEffect := effectToIndex fx_none, uEffectIntensity := 0 \<rparr> \<rparr>
                     else s)
               else if effectTransitionStageRef s = showNone then
                 (let s = s\<lparr> material := (material s)
                              \<lparr> uEffect := effectToIndex fx_none, uEffectIntensity := 0 \<rparr> \<rparr>
                  in if progress \<ge> 0.3 then
                       s\<lparr> effectTransitionStageRef := fadeIn, effectTransitionRef := 0 \<rparr>
                     else s)
               else if effectTransitionStageRef s = fadeIn then
                 (let fadeInProgress = progress;
                      s = s\<lparr> material := (material s)
                              \<lparr> uEffect := effectToIndex (targetEffectRef s),
                                uEffectIntensity := effectIntensity p * fadeInProgress \<rparr> \<rparr>
                  in if fadeInProgress \<ge> 1 then
                       s\<lparr> effectTransitionStageRef := idle,
                           previousEffectRef := targetEffectRef s \<rparr>
                     else s)
               else s)
         else
           s\<lparr> material := (material s)
                 \<lparr> uEffect := effectToIndex (currentEffect p),
                   uEffectIntensity := effectIntensity p \<rparr> \<rparr>)"

text \<open>The exponential smoothing of the lighting, hand and particle settings.\<close>

definition frameSmoothing :: "real \<Rightarrow> particle_system \<Rightarrow> particle_system" where
  "frameSmoothing delta s =
     (let p = rendered s;
          lightingLerpFactor = min (delta * transitionSpeed (particleSettings p) * 3) 1;
          handLerpFactor = min (delta * gestureTransitionSpeed (handSettings p) * 3) 1;
          particleLerpFactor = min (delta * transitionSpeed (particleSettings p) * 3) 1
      in s\<lparr> smoothLightingSpeedRef := smoothLightingSpeedRef s
               + (lightingSpeed (lightingSettings p) - smoothLightingSpeedRef s) * lightingLerpFactor,
             smoothLightingIntensityRef := smoothLightingIntensityRef s
               + (lightingIntensity (lightingSettings p) - smoothLightingIntensityRef s)
                 * lightingLerpFactor,
             smoothLightingRadiusRef := smoothLightingRadiusRef s
               + (lightingRadius (lightingSettings p) - smoothLightingRadiusRef s) * lightingLerpFactor,
             smoothHandRadiusRef := smoothHandRadiusRef s
               + (interactionRadius (handSettings p) - smoothHandRadiusRef s) * handLerpFactor,
             smoothAttractionForceRef := smoothAttractionForceRef s
               + (attractionForce (handSettings p) - smoothAttractionForceRef s) * handLerpFactor,
             smoothRepulsionForceRef := smoothRepulsionForceRef s
               + (repulsionForce (handSettings p) - smoothRepulsionForceRef s) * handLerpFactor,
             smoothSizeRef := smoothSizeRef s
               + (particleSize (particleSettings p) - smoothSizeRef s) * particleLerpFactor,
             smoothSpeedRef := smoothSpeedRef s
               + (particleSpeed (particleSettings p) - smoothSpeedRef s) * particleLerpFactor,
             smoothTurbulenceRef := smoothTurbulenceRef s
               + (turbulence (particleSettings p) - smoothTurbulenceRef s) * particleLerpFactor \<rparr>)"

definition frameFloat :: "real \<Rightarrow> particle_system \<Rightarrow> particle_system" where
  "frameFloat time s =
     (if currentEffect (rendered s) = fx_float then
        (let off = sin (time * 0.5) * 0.5 + 0.5
         in s\<lparr> floatOffsetRef := off, material := (material s)\<lparr> uFloatOffset := off \<rparr> \<rparr>)
      else s)"

text \<open>\<^verbatim>\<open>audioData?.bass || 0\<close> and its like.\<close>

definition audioBand :: "(AudioData \<Rightarrow> real) \<Rightarrow> AudioData option \<Rightarrow> real" where
  "audioBand band a = (case a of None \<Rightarrow> 0 | Some d \<Rightarrow> band d)"

text \<open>
  The GPGPU compute pass.  \<open>posTexture\<close> is the texture
  \<^verbatim>\<open>getCurrentRenderTarget(posVarRef.current).texture\<close> holds after \<^verbatim>\<open>compute()\<close>.
\<close>

definition frameGPGPU :: "real \<Rightarrow> real \<Rightarrow> sampler2D \<Rightarrow> particle_system \<Rightarrow> particle_system" where
  "frameGPGPU delta time posTexture s =
     (let p = rendered s
      in case velVarRef s of
           Some velUniforms \<Rightarrow>
             if gpuComputeRef s \<and> posVarRef s \<noteq> None \<and> gpuEnabledRef s then
               s\<lparr> velVarRef := Some (velUniforms
                      \<lparr> uTime := time,
                        uDeltaTime := min delta 0.05,
                        uLeftHand := smoothLeftHandRef s,
                        uRightHand := smoothRightHandRef s,
                        uHandRadius := smoothHandRadiusRef s,
                        uRepulsionForce := smoothRepulsionForceRef s,
                        uAttractionForce := smoothAttractionForceRef s,
                        uAudioBass := audioBand bass (audioData p),
                        uAudioEnergy := audioBand energy (audioData p) \<rparr>),
                   posVarRef := Some (min delta 0.05),
                   material := (material s)
                     \<lparr> texturePhysics := Some posTexture, uUseGPGPU := True \<rparr> \<rparr>
             else s\<lparr> material := (material s)\<lparr> uUseGPGPU := False \<rparr> \<rparr>
         | None \<Rightarrow> s\<lparr> material := (material s)\<lparr> uUseGPGPU := False \<rparr> \<rparr>)"

definition frameAudio :: "particle_system \<Rightarrow> particle_system" where
  "frameAudio s =
     (let p = rendered s
      in s\<lparr> material := (material s)
               \<lparr> uAudioBass := audioBand bass (audioData p),
                 uAudioMid := audioBand mid (audioData p),
                 uAudioTreble := audioBand treble (audioData p),
                 uAudioEnergy := audioBand energy (audioData p) \<rparr> \<rparr>)"

definition updateUniforms :: "particle_system \<Rightarrow> particle_system" where
  "updateUniforms s =
     (let p = rendered s
      in s\<lparr> material := (material s)
               \<lparr> uSize := smoothSizeRef s,
                 uSpeed := smoothSpeedRef s,
                 uTurbulence := smoothTurbulenceRef s,
                 uHandRadius := smoothHandRadiusRef s,
                 uAttractionForce := smoothAttractionForceRef s,
                 uRepulsionForce := smoothRepulsionForceRef s,
                 uGesture := 0,
                 uRotateAxisX := axisX (rotationSettings p),
                 uRotateAxisY := axisY (rotationSettings p),
                 uRotateAxisZ := axisZ (rotationSettings p),
                 uRotateSpeed := rotationSpeed (rotationSettings p),
                 uLightingMode := lightingModeToIndex (mode (lightingSettings p)),
                 uLightingSpeed := smoothLightingSpeedRef s,
                 uLightingIntensity := smoothLightingIntensityRef s,
                 uLightingRadius := smoothLightingRadiusRef s,
                 uLeftHand := (case leftHand p of
                                 Some h \<Rightarrow> if enabled (handSettings p) then h else (0, 0, 0)
                               | None \<Rightarrow> (0, 0, 0)),
                 uRightHand := (case rightHand p of
                                  Some h \<Rightarrow> if enabled (handSettings p) then h else (0, 0, 0)
                                | None \<Rightarrow> (0, 0, 0)) \<rparr> \<rparr>)"

definition useFrame :: "real \<Rightarrow> real \<Rightarrow> sampler2D \<Rightarrow> particle_system \<Rightarrow> particle_system" where
  "useFrame delta time posTexture s =
     updateUniforms
       (frameAudio
         (frameGPGPU delta time posTexture
           (frameFloat time
             (frameSmoothing delta
               (frameEffect delta
                 (frameHands delta
                   (s\<lparr> material := (material s)\<lparr> uTime := time \<rparr> \<rparr>)))))))"

text \<open>
  The GPGPU initialisation \<^verbatim>\<open>useEffect\<close>.  The outcomes of its \<^verbatim>\<open>try\<close> block: something
  throws (the constructor, a texture, a variable), \<^verbatim>\<open>gpuCompute.init()\<close> returns an error,
  or everything succeeds.
\<close>

datatype gpgpu_outcome = Throws | InitError | InitOk

definition gpgpuInit :: "gpgpu_outcome \<Rightarrow> particle_system \<Rightarrow> particle_system" where
  "gpgpuInit outcome s =
     (case outcome of
        Throws \<Rightarrow> s\<lparr> gpuEnabledRef := False \<rparr>
      | InitError \<Rightarrow> s\<lparr> gpuEnabledRef := False \<rparr>
      | InitOk \<Rightarrow>
          s\<lparr> gpuComputeRef := True,
              posVarRef := Some 0.016,
              velVarRef := Some
                \<lparr> uTime = 0,
                  uLeftHand = (0, 0, 0),
                  uRightHand = (0, 0, 0),
                  uHandRadius = 100,
                  uRepulsionForce = 0.5,
                  uAttractionForce = 0.5,
                  uGesture = 0,
                  uAudioBass = 0,
                  uAudioEnergy = 0,
                  uDeltaTime = 0.016 \<rparr>,
              gpuEnabledRef := True \<rparr>)"


text \<open>
  One animation frame as the component sees it: the renders the store changes since the
  last frame caused, in order, then the frame callback.
\<close>

record frame_input =
  renders :: "props list"
  delta :: real
  elapsedTime :: real
  posTexture :: sampler2D

definition frame :: "particle_system \<Rightarrow> frame_input \<Rightarrow> particle_system" where
  "frame s i = useFrame (delta i) (elapsedTime i) (posTexture i) (foldl render s (renders i))"

text \<open>The state after the first \<open>n\<close> frames of an input stream.\<close>

fun run :: "(nat \<Rightarrow> frame_input) \<Rightarrow> nat \<Rightarrow> particle_system \<Rightarrow> particle_system" where
  "run inp 0 s = s"
| "run inp (Suc n) s = frame (run inp n s) (inp n)"




section \<open>Definitions used in the statements and proofs\<close>

text \<open>
  The three blocks of the rotate branch of \<^verbatim>\<open>applyEffect\<close> as functions of the vector,
  and their composition under the axis flags.
\<close>

fun rotX :: "real \<Rightarrow> real \<Rightarrow> vec3 \<Rightarrow> vec3" where
  "rotX c s (x, y, z) = (x, y * c - z * s, y * s + z * c)"

fun rotY :: "real \<Rightarrow> real \<Rightarrow> vec3 \<Rightarrow> vec3" where
  "rotY c s (x, y, z) = (x * c + z * s, y, - x * s + z * c)"

fun rotZ :: "real \<Rightarrow> real \<Rightarrow> vec3 \<Rightarrow> vec3" where
  "rotZ c s (x, y, z) = (x * c - y * s, x * s + y * c, z)"

definition rotated :: "vertex_uniforms \<Rightarrow> vec3 \<Rightarrow> vec3" where
  "rotated u v =
     (let angle = uTime u * uRotateSpeed u * uEffectIntensity u;
          c = cos angle; s = sin angle;
          v = (if uRotateAxisX u then rotX c s v else v);
          v = (if uRotateAxisY u then rotY c s v else v)
      in if uRotateAxisZ u then rotZ c s v else v)"

text \<open>The store's initial values (\<^verbatim>\<open>useAppStore\<close>).\<close>

definition defaultProps :: props where
  "defaultProps =
     \<lparr> currentEffect = fx_none,
       effectIntensity = 0.5,
       particleSettings =
         \<lparr> particleSize = 2, particleSpeed = 1, turbulence = 0.5, transitionSpeed = 0.5 \<rparr>,
       rotationSettings =
         \<lparr> rotationSpeed = 0.5, axisX = False, axisY = True, axisZ = False \<rparr>,
       lightingSettings =
         \<lparr> mode = lm_none, lightingSpeed = 0.5, lightingIntensity = 0.7, lightingRadius = 100 \<rparr>,
       handSettings =
         \<lparr> enabled = False, sensitivity = 1, interactionRadius = 100, attractionForce = 0.5,
           repulsionForce = 0.5, gestureEnabled = True, gestureTransitionSpeed = 0.5 \<rparr>,
       leftHand = None,
       rightHand = None,
       audioData = None \<rparr>"

text \<open>
  The uniforms of the rotate scenario: the rotate effect about Y (the store's default axis)
  with speed 1, intensity 1 and the angle \<open>pi / 2\<close>.
\<close>

definition rotateScenario :: vertex_uniforms where
  "rotateScenario =
     (material (mount defaultProps))
       \<lparr> uTime := pi / 2, uEffect := 9, uEffectIntensity := 1, uRotateSpeed := 1 \<rparr>"

text \<open>
  A vertex that reaches the largest point size: the pulse lighting at its peak, both audio
  bands at 1, and a particle 10 units in front of a camera at \<open>z = 300\<close>.
\<close>

definition sizeUniforms :: vertex_uniforms where
  "sizeUniforms =
     (material (mount defaultProps))
       \<lparr> uTime := pi / 6, uAudioBass := 1, uTurbulence := 0, uLightingMode := 4,
         uLightingSpeed := 1, uLightingIntensity := 1, uAudioTreble := 1 \<rparr>"

definition sizeCamera :: camera_uniforms where
  "sizeCamera =
     \<lparr> modelViewMatrix = ((1, 0, 0, 0), (0, 1, 0, 0), (0, 0, 1, - 300), (0, 0, 0, 1)),
       projectionMatrix = ((1, 0, 0, 0), (0, 1, 0, 0), (0, 0, 1, 0), (0, 0, 0, 1)) \<rparr>"

definition sizeParticle :: vertex_attributes where
  "sizeParticle =
     \<lparr> originalPosition = (0, 0, 290), targetPosition = (0, 0, 290), color = (1, 1, 1),
       targetColor = (1, 1, 1), randomOffset = 0, texCoord = (1 / 2, 1 / 2) \<rparr>"

text \<open>
  The uniforms of the hand scenario: a hand radius of 50, the store's default forces, the
  open gesture, and both hands at \<open>(0, 0, 0)\<close>, the value of an absent hand.
\<close>

definition handScenario :: velocity_uniforms where
  "handScenario =
     \<lparr> uTime = 0, uLeftHand = (0, 0, 0), uRightHand = (0, 0, 0), uHandRadius = 50,
       uRepulsionForce = 0.5, uAttractionForce = 0.5, uGesture = 1, uAudioBass = 0,
       uAudioEnergy = 0, uDeltaTime = 0.016 \<rparr>"


text \<open>The threshold that ends a stage of the effect transition, and the stage after it.\<close>

fun stageThreshold :: "stage \<Rightarrow> real" where
  "stageThreshold fadeOut = 1"
| "stageThreshold showNone = 0.3"
| "stageThreshold fadeIn = 1"
| "stageThreshold idle = 0"

fun nextStage :: "stage \<Rightarrow> stage" where
  "nextStage idle = fadeOut"
| "nextStage fadeOut = showNone"
| "nextStage showNone = fadeIn"
| "nextStage fadeIn = idle"

definition nextProgress :: "real \<Rightarrow> particle_system \<Rightarrow> real" where
  "nextProgress d s =
     min (effectTransitionRef s + d * transitionSpeed (particleSettings (rendered s)) * 2) 1"

text \<open>
  An input stream whose frame deltas are at least \<open>dmin\<close> and whose renders all carry a
  transition speed of at least \<open>smin\<close>.
\<close>

definition paced :: "real \<Rightarrow> real \<Rightarrow> (nat \<Rightarrow> frame_input) \<Rightarrow> bool" where
  "paced dmin smin inp \<longleftrightarrow>
     (\<forall>i. dmin \<le> delta (inp i)
          \<and> (\<forall>q \<in> set (renders (inp i)). smin \<le> transitionSpeed (particleSettings q)))"

text \<open>
  A scenario: the store's defaults, the wave effect requested, then frames of half a second
  with the spiral effect requested before the second frame, while the transition to wave
  is in flight.
\<close>

definition requestDuringFlight :: "nat \<Rightarrow> frame_input" where
  "requestDuringFlight i =
     \<lparr> renders = (if i = 1 then [defaultProps\<lparr> currentEffect := fx_spiral \<rparr>] else []),
       delta = 1 / 2,
       elapsedTime = real (Suc i) / 2,
       posTexture = (\<lambda>c. (0, 0, 0)) \<rparr>"

definition waveRequested :: particle_system where
  "waveRequested = render (firstRender defaultProps) (defaultProps\<lparr> currentEffect := fx_wave \<rparr>)"

text \<open>The state the GPGPU pass of a frame starts from.\<close>

definition beforeGPGPU :: "real \<Rightarrow> real \<Rightarrow> particle_system \<Rightarrow> particle_system" where
  "beforeGPGPU d t s =
     frameFloat t (frameSmoothing d (frameEffect d
       (frameHands d (s\<lparr> material := (material s)\<lparr> uTime := t \<rparr> \<rparr>))))"

text \<open>
  A scenario: the GPGPU passes initialised, hand tracking enabled with the left hand at
  \<open>(100, 0, 0)\<close> for one frame of a tenth of a second, then hand tracking disabled (the
  store keeps the last hand position).
\<close>

definition handOn :: props where
  "handOn = defaultProps
     \<lparr> handSettings := (handSettings defaultProps)\<lparr> enabled := True \<rparr>,
       leftHand := Some (100, 0, 0) \<rparr>"

definition handOff :: props where
  "handOff = defaultProps\<lparr> leftHand := Some (100, 0, 0) \<rparr>"

definition handDisabled :: "nat \<Rightarrow> frame_input" where
  "handDisabled i =
     \<lparr> renders = (if i = 0 then [handOn] else if i = 1 then [handOff] else []),
       delta = 1 / 10,
       elapsedTime = real (Suc i) / 10,
       posTexture = (\<lambda>c. (0, 0, 0)) \<rparr>"

definition gpgpuReady :: particle_system where
  "gpgpuReady = gpgpuInit InitOk (firstRender defaultProps)"

text \<open>
  The position \<^verbatim>\<open>main\<close> of the vertex shader hands to \<^verbatim>\<open>applyEffect\<close>: the base position
  plus the turbulence.
\<close>

definition basePosition :: "vertex_uniforms \<Rightarrow> vertex_attributes \<Rightarrow> vec3" where
  "basePosition u a = mix (originalPosition a) (targetPosition a) (uTransitionProgress u)"


text \<open>
  A scenario: as \<open>requestDuringFlight\<close>, and the wave effect selected again before the
  seventh frame, when the machine is idle again.
\<close>

definition reselectPrevious :: "nat \<Rightarrow> frame_input" where
  "reselectPrevious i =
     \<lparr> renders = (if i = 1 then [defaultProps\<lparr> currentEffect := fx_spiral \<rparr>]
                  else if i = 6 then [defaultProps\<lparr> currentEffect := fx_wave \<rparr>] else []),
       delta = 1 / 2,
       elapsedTime = real (Suc i) / 2,
       posTexture = (\<lambda>c. (0, 0, 0)) \<rparr>"

text \<open>
  A scenario: no render, and frames whose positive deltas halve from frame to frame.
\<close>

definition shrinkingDeltas :: "nat \<Rightarrow> frame_input" where
  "shrinkingDeltas i =
     \<lparr> renders = [],
       delta = 1 / 2 ^ Suc i,
       elapsedTime = 1 - 1 / 2 ^ Suc i,
       posTexture = (\<lambda>c. (0, 0, 0)) \<rparr>"

text \<open>
  A scenario: the spiral effect stays selected while the audio analysis delivers new band
  values before every frame.
\<close>

definition spiralWithAudio :: props where
  "spiralWithAudio = defaultProps
     \<lparr> currentEffect := fx_spiral,
       audioData := Some \<lparr> bass = 1 / 2, mid = 1 / 4, treble = 1 / 8, energy = 1 / 4 \<rparr> \<rparr>"

definition audioUpdates :: "nat \<Rightarrow> frame_input" where
  "audioUpdates i =
     \<lparr> renders = [spiralWithAudio],
       delta = 1 / 2,
       elapsedTime = real (Suc i) / 2 + 5 / 2,
       posTexture = (\<lambda>c. (0, 0, 0)) \<rparr>"





section \<open>Vector facts\<close>




lemma vlength_x_axis: "vlength (a, 0, 0) = \<bar>a\<bar>"
  by (simp add: vlength_def)

lemma vlength_zero: "vlength (0, 0, 0) = 0"
  by (simp add: vlength_def)



lemma vadd_vsub_self: "vadd v (vsub a a) = v"
  by (cases v; cases a) simp

lemma applyEffect_rotate: "uEffect u = 9 \<Longrightarrow> applyEffect u r a a tm = Some (rotated u a)"
  by (cases a) (simp add: rotated_def Let_def)

lemma rotX_sub: "vsub (rotX c s a) (rotX c s b) = rotX c s (vsub a b)"
  by (cases a; cases b) (simp add: algebra_simps)

lemma rotY_sub: "vsub (rotY c s a) (rotY c s b) = rotY c s (vsub a b)"
  by (cases a; cases b) (simp add: algebra_simps)

lemma rotZ_sub: "vsub (rotZ c s a) (rotZ c s b) = rotZ c s (vsub a b)"
  by (cases a; cases b) (simp add: algebra_simps)

lemma rot_plane: 
  fixes c s p q :: real
  assumes "c * c + s * s = 1"
  shows "(p * c - q * s) * (p * c - q * s) + (p * s + q * c) * (p * s + q * c) = p * p + q * q"
proof -
  have "(p * c - q * s) * (p * c - q * s) + (p * s + q * c) * (p * s + q * c)
        = (p * p + q * q) * (c * c + s * s)"
    by (simp add: algebra_simps)
  then show ?thesis using assms by simp
qed

lemma cs1: "cos (x::real) * cos x + sin x * sin x = 1"
  using sin_cos_squared_add2 [of x] by (simp add: power2_eq_square)

lemma vlength_rotX: "c * c + s * s = 1 \<Longrightarrow> vlength (rotX c s v) = vlength v"
  using rot_plane [of c s "fst (snd v)" "snd (snd v)"]
  by (cases v) (simp add: vlength_def)

lemma vlength_rotY: "c * c + s * s = 1 \<Longrightarrow> vlength (rotY c s v) = vlength v"
  using rot_plane [of c s "snd (snd v)" "fst v"]
  by (cases v) (simp add: vlength_def algebra_simps)

lemma vlength_rotZ: "c * c + s * s = 1 \<Longrightarrow> vlength (rotZ c s v) = vlength v"
  using rot_plane [of c s "fst v" "fst (snd v)"]
  by (cases v) (simp add: vlength_def)

lemma rotated_sub: "vlength (vsub (rotated u a) (rotated u b)) = vlength (vsub a b)"
  by (simp add: rotated_def Let_def rotX_sub rotY_sub rotZ_sub vlength_rotX vlength_rotY vlength_rotZ cs1)

text \<open>
  C2.  Under the rotate effect (index 9), for every intensity, time, speed and combination
  of axes, two particles without turbulence offset (\<open>pos = originalPos\<close>) are mapped to
  positions whose distance is the distance of their original positions.  With rotation
  about Y only and the angle \<open>uTime * uRotateSpeed * intensity = pi / 2\<close> the four particles
  (0,0,0), (10,0,0), (0,10,0), (10,10,0) go to (0,0,0), (0,0,-10), (0,10,0), (0,10,-10),
  and particles 0 and 1 stay 10 apart.
\<close>

theorem rotate_effect_rigid:
  assumes "uEffect u = 9"
  shows "(\<exists>p q. applyEffect u r1 a a tm = Some p \<and> applyEffect u r2 b b tm = Some q
            \<and> vlength (vsub p q) = vlength (vsub a b))
     \<and> (\<not> uRotateAxisX u \<and> uRotateAxisY u \<and> \<not> uRotateAxisZ u
          \<and> uTime u * uRotateSpeed u * uEffectIntensity u = pi / 2 \<longrightarrow>
          applyEffect u r1 (0, 0, 0) (0, 0, 0) tm = Some (0, 0, 0)
        \<and> applyEffect u r1 (10, 0, 0) (10, 0, 0) tm = Some (0, 0, - 10)
        \<and> applyEffect u r1 (0, 10, 0) (0, 10, 0) tm = Some (0, 10, 0)
        \<and> applyEffect u r1 (10, 10, 0) (10, 10, 0) tm = Some (0, 10, - 10)
        \<and> vlength (vsub (0, 0, 0) (0, 0, - 10)) = 10)"
proof (intro conjI impI)
  show "\<exists>p q. applyEffect u r1 a a tm = Some p \<and> applyEffect u r2 b b tm = Some q
            \<and> vlength (vsub p q) = vlength (vsub a b)"
    using assms by (simp add: applyEffect_rotate rotated_sub)
next
  assume ax: "\<not> uRotateAxisX u \<and> uRotateAxisY u \<and> \<not> uRotateAxisZ u
          \<and> uTime u * uRotateSpeed u * uEffectIntensity u = pi / 2"
  define A where "A = uTime u * uRotateSpeed u * uEffectIntensity u"
  have "A = pi / 2"
    using ax by (simp add: A_def)
  then have cs: "cos A = 0" "sin A = 1"
    by (simp_all only: cos_pi_half sin_pi_half)
  have "rotated u v = rotY (cos A) (sin A) v" for v
    using ax by (simp add: rotated_def Let_def A_def)
  then have r: "rotated u (x, y, z) = (z, y, - x)" for x y z
    by (simp add: cs)
  show "applyEffect u r1 (0, 0, 0) (0, 0, 0) tm = Some (0, 0, 0)"
    using assms by (simp only: applyEffect_rotate r) simp
  show "applyEffect u r1 (10, 0, 0) (10, 0, 0) tm = Some (0, 0, - 10)"
    using assms by (simp only: applyEffect_rotate r)
  show "applyEffect u r1 (0, 10, 0) (0, 10, 0) tm = Some (0, 10, 0)"
    using assms by (simp only: applyEffect_rotate r) simp
  show "applyEffect u r1 (10, 10, 0) (10, 10, 0) tm = Some (0, 10, - 10)"
    using assms by (simp only: applyEffect_rotate r)
  show "vlength (vsub (0, 0, 0) (0, 0, - 10)) = 10"
    by (simp add: vlength_def)
qed

theorem rotate_effect_rigid_witness:
  "uEffect rotateScenario = 9
   \<and> applyEffect rotateScenario 0 (0, 0, 0) (0, 0, 0) 0 = Some (0, 0, 0)
   \<and> applyEffect rotateScenario 0 (10, 0, 0) (10, 0, 0) 0 = Some (0, 0, - 10)
   \<and> applyEffect rotateScenario 0 (0, 10, 0) (0, 10, 0) 0 = Some (0, 10, 0)
   \<and> applyEffect rotateScenario 0 (10, 10, 0) (10, 10, 0) 0 = Some (0, 10, - 10)
   \<and> (\<exists>p q. applyEffect rotateScenario 0 (0, 0, 0) (0, 0, 0) 0 = Some p
          \<and> applyEffect rotateScenario 0 (10, 0, 0) (10, 0, 0) 0 = Some q
          \<and> vlength (vsub p q) = vlength (vsub (0, 0, 0) (10, 0, 0)))
   \<and> vlength (vsub (0, 0, 0) (10, 0, 0)) = 10"
proof -
  have e: "uEffect rotateScenario = 9"
    by (simp add: rotateScenario_def)
  have ax: "\<not> uRotateAxisX rotateScenario \<and> uRotateAxisY rotateScenario
      \<and> \<not> uRotateAxisZ rotateScenario
      \<and> uTime rotateScenario * uRotateSpeed rotateScenario * uEffectIntensity rotateScenario
        = pi / 2"
    by (simp add: rotateScenario_def mount_def defaultProps_def)
  have d: "vlength (vsub (0, 0, 0) (10, 0, 0)) = 10"
    by (simp add: vlength_def)
  show ?thesis
    using rotate_effect_rigid [OF e, of 0 "(0, 0, 0)" 0 0 "(10, 0, 0)"] ax e d
    by blast
qed

section \<open>Point size\<close>

lemma clamp_bounds: "lo \<le> hi \<Longrightarrow> lo \<le> clamp x lo hi \<and> clamp x lo hi \<le> hi"
  by (simp add: clamp_def)

lemma glow_range: "0 \<le> calculateLightingGlow u pos tm \<and> calculateLightingGlow u pos tm \<le> 1"
proof -
  obtain x y z where pos: "pos = (x, y, z)" by (cases pos) auto
  have c: "0 \<le> clamp g 0 1 \<and> clamp g 0 1 \<le> 1" for g
    using clamp_bounds [of 0 1 g] by simp
  show ?thesis
    unfolding pos calculateLightingGlow.simps Let_def
    using c by (simp only: split: if_split) auto
qed

lemma size_product:
  fixes c g b t :: real
  assumes "1 \<le> c" "c \<le> 50" "0 \<le> g" "g \<le> 1" "0 \<le> b" "b \<le> 1" "0 \<le> t" "t \<le> 1"
  shows "1 \<le> c * (1 + g * 0.5) * (1 + b * 0.5 + t * 0.3)"
    and "c * (1 + g * 0.5) * (1 + b * 0.5 + t * 0.3) \<le> 135"
proof -
  have f1: "1 \<le> 1 + g * 0.5" "1 + g * 0.5 \<le> 1.5" using assms by simp_all
  have f2: "1 \<le> 1 + b * 0.5 + t * 0.3" "1 + b * 0.5 + t * 0.3 \<le> 1.8" using assms by simp_all
  define p where "p = c * (1 + g * 0.5)"
  define q where "q = 1 + b * 0.5 + t * 0.3"
  have l1: "1 \<le> p"
    using mult_mono [OF assms(1) f1(1)] assms(1) by (simp add: p_def)
  have u1: "p \<le> 75"
    using mult_mono [OF assms(2) f1(2)] f1(1) by (simp add: p_def)
  have q: "1 \<le> q" "q \<le> 1.8"
    using f2 by (simp_all add: q_def)
  have "1 \<le> p * q"
    using mult_mono [OF l1 q(1)] l1 by simp
  then show "1 \<le> c * (1 + g * 0.5) * (1 + b * 0.5 + t * 0.3)"
    by (simp add: p_def q_def)
  have "p * q \<le> 75 * 1.8"
    using mult_mono [OF u1 q(2)] q(1) by simp
  then show "c * (1 + g * 0.5) * (1 + b * 0.5 + t * 0.3) \<le> 135"
    by (simp add: p_def q_def)
qed

lemma pointSize_range:
  assumes "0 \<le> uAudioBass u" "uAudioBass u \<le> 1" "0 \<le> uAudioTreble u" "uAudioTreble u \<le> 1"
    and "0 \<le> g" "g \<le> 1" and "pointSize u mvz g = Some sz"
  shows "1 \<le> sz \<and> sz \<le> 135"
proof -
  have mv: "mvz \<noteq> 0" using assms(7) by (auto simp: pointSize_def)
  define c where "c = clamp (uSize u * (300 / - mvz)) 1 50"
  have c: "1 \<le> c" "c \<le> 50" using clamp_bounds [of 1 50] by (simp_all add: c_def)
  have "sz = c * (1 + g * 0.5) * (1 + uAudioBass u * 0.5 + uAudioTreble u * 0.3)"
    using assms(7) mv by (simp add: pointSize_def Let_def c_def)
  then show ?thesis
    using size_product [OF c assms(5,6) assms(1-4)] by simp
qed

lemma pointSize_defined: "mvz \<noteq> 0 \<Longrightarrow> \<exists>sz. pointSize u mvz g = Some sz"
  by (simp add: pointSize_def Let_def)

lemma vertexMain_size:
  assumes "vertexMain u cam a = Some out"
  shows "pointSize u (- vDistance out) (vLightingGlow out) = Some (gl_PointSize out)
     \<and> vLightingGlow out = calculateLightingGlow u (worldPosition out) (uTime u)"
  using assms unfolding vertexMain_def Let_def
  by (auto simp del: calculateLightingGlow.simps applyEffect.simps
        split: option.splits if_splits prod.splits)

text \<open>
  C10.  With audio bass and treble in [0,1], every vertex the shader computes has a
  point size between 1 and 135.  The size is the clamp of \<open>uSize * 300 / -z\<close> to [1,50]
  times \<open>1 + glow / 2\<close> times \<open>1 + bass / 2 + 3 treble / 10\<close>, so the clamp bounds the
  size before the two factors only; the lighting glow lies in [0,1] by the shader's own
  clamp; and the bound \<open>50 * 2.7 = 135\<close> is reached when the base size is clamped from
  above, the glow is 1 and both bands are 1.
\<close>

theorem point_size_range:
  assumes "0 \<le> uAudioBass u" "uAudioBass u \<le> 1" "0 \<le> uAudioTreble u" "uAudioTreble u \<le> 1"
  shows "(\<forall>out. vertexMain u cam a = Some out \<longrightarrow>
            1 \<le> gl_PointSize out \<and> gl_PointSize out \<le> 135)
     \<and> (mvz \<noteq> 0 \<longrightarrow>
            pointSize u mvz g
              = Some (clamp (uSize u * (300 / - mvz)) 1 50 * (1 + g * 0.5)
                      * (1 + uAudioBass u * 0.5 + uAudioTreble u * 0.3))
          \<and> 1 \<le> clamp (uSize u * (300 / - mvz)) 1 50
          \<and> clamp (uSize u * (300 / - mvz)) 1 50 \<le> 50)
     \<and> (mvz \<noteq> 0 \<and> 0 \<le> g \<and> g \<le> 1 \<longrightarrow>
            (\<exists>sz. pointSize u mvz g = Some sz \<and> 1 \<le> sz \<and> sz \<le> 50 * 1.5 * 1.8))
     \<and> (mvz \<noteq> 0 \<and> 50 \<le> uSize u * (300 / - mvz) \<and> uAudioBass u = 1 \<and> uAudioTreble u = 1 \<longrightarrow>
            pointSize u mvz 1 = Some (50 * 2.7))"
proof (intro conjI allI impI)
  fix out
  assume m: "vertexMain u cam a = Some out"
  have ps: "pointSize u (- vDistance out) (vLightingGlow out) = Some (gl_PointSize out)"
    and g: "vLightingGlow out = calculateLightingGlow u (worldPosition out) (uTime u)"
    using vertexMain_size [OF m] by blast+
  have "0 \<le> vLightingGlow out" "vLightingGlow out \<le> 1"
    using glow_range [of u "worldPosition out" "uTime u"] g by simp_all
  then show "1 \<le> gl_PointSize out" "gl_PointSize out \<le> 135"
    using pointSize_range [OF assms _ _ ps] by simp_all
next
  assume "mvz \<noteq> 0"
  then show "pointSize u mvz g
              = Some (clamp (uSize u * (300 / - mvz)) 1 50 * (1 + g * 0.5)
                      * (1 + uAudioBass u * 0.5 + uAudioTreble u * 0.3))"
    by (simp add: pointSize_def Let_def)
  show "1 \<le> clamp (uSize u * (300 / - mvz)) 1 50" "clamp (uSize u * (300 / - mvz)) 1 50 \<le> 50"
    using clamp_bounds [of 1 50] by simp_all
next
  assume a: "mvz \<noteq> 0 \<and> 0 \<le> g \<and> g \<le> 1"
  then obtain sz where sz: "pointSize u mvz g = Some sz"
    using pointSize_defined by blast
  then show "\<exists>sz. pointSize u mvz g = Some sz \<and> 1 \<le> sz \<and> sz \<le> 50 * 1.5 * 1.8"
    using pointSize_range [OF assms _ _ sz] a by simp
next
  assume "mvz \<noteq> 0 \<and> 50 \<le> uSize u * (300 / - mvz) \<and> uAudioBass u = 1 \<and> uAudioTreble u = 1"
  then show "pointSize u mvz 1 = Some (50 * 2.7)"
    by (simp add: pointSize_def Let_def clamp_def)
qed

lemma size_scenario:
  "\<exists>out. vertexMain sizeUniforms sizeCamera sizeParticle = Some out \<and> gl_PointSize out = 135"
  by (simp add: vertexMain_def sizeUniforms_def sizeCamera_def sizeParticle_def mount_def
      defaultProps_def mix_def applyHandInteraction_def handPush_def vlength_zero
      pointSize_def clamp_def)

theorem point_size_range_witness:
  "0 \<le> uAudioBass sizeUniforms \<and> uAudioBass sizeUniforms \<le> 1
   \<and> 0 \<le> uAudioTreble sizeUniforms \<and> uAudioTreble sizeUniforms \<le> 1
   \<and> (\<exists>out. vertexMain sizeUniforms sizeCamera sizeParticle = Some out
          \<and> gl_PointSize out = 135 \<and> 1 \<le> gl_PointSize out \<and> gl_PointSize out \<le> 135)
   \<and> pointSize sizeUniforms (- 10) 1 = Some 135"
proof -
  have b: "0 \<le> uAudioBass sizeUniforms" "uAudioBass sizeUniforms \<le> 1"
    "0 \<le> uAudioTreble sizeUniforms" "uAudioTreble sizeUniforms \<le> 1"
    by (simp_all add: sizeUniforms_def)
  have s: "(- 10::real) \<noteq> 0 \<and> 50 \<le> uSize sizeUniforms * (300 / - (- 10))
      \<and> uAudioBass sizeUniforms = 1 \<and> uAudioTreble sizeUniforms = 1"
    by (simp add: sizeUniforms_def mount_def defaultProps_def)
  show ?thesis
    using point_size_range [OF b, of sizeCamera sizeParticle "- 10" 1] b s size_scenario
    by auto
qed

section \<open>Normalising directions\<close>

lemma normalize3_zero: "normalize3 (0, 0, 0) = None"
  by (simp add: normalize3_def vlength_zero)

text \<open>
  C5.  The explode, implode and pulse branches of \<^verbatim>\<open>applyEffect\<close> normalise \<open>pos\<close>
  without a length check: for a particle at the origin the result is undefined, in the
  branch and in the whole vertex shader (a particle whose original and target position are
  the origin, without turbulence).  The audio block of the velocity shader does check: at
  zero displacement its direction is the default \<open>(0, 1, 0)\<close>.
\<close>

theorem radial_effects_undefined_at_origin:
  "applyEffect (u\<lparr> uEffect := 3 \<rparr>) r (0, 0, 0) orig tm = None
   \<and> applyEffect (u\<lparr> uEffect := 4 \<rparr>) r (0, 0, 0) orig tm = None
   \<and> applyEffect (u\<lparr> uEffect := 7 \<rparr>) r (0, 0, 0) orig tm = None
   \<and> vertexMain (u\<lparr> uTurbulence := 0, uEffect := 3 \<rparr>) cam
        (a\<lparr> originalPosition := (0, 0, 0), targetPosition := (0, 0, 0) \<rparr>) = None
   \<and> radialDir (0, 0, 0) = Some (0, 1, 0)"
proof -
  obtain ox oy oz where orig: "orig = (ox, oy, oz)" by (cases orig) auto
  have e: "applyEffect (u\<lparr> uEffect := 3 \<rparr>) r (0, 0, 0) orig tm = None"
    "applyEffect (u\<lparr> uEffect := 4 \<rparr>) r (0, 0, 0) orig tm = None"
    "applyEffect (u\<lparr> uEffect := 7 \<rparr>) r (0, 0, 0) orig tm = None"
    by (simp_all add: orig normalize3_zero)
  have "applyEffect (u\<lparr> uTurbulence := 0, uEffect := 3 \<rparr>) r (0, 0, 0) (0, 0, 0) tm = None" for r tm
    by (simp add: normalize3_zero)
  then have m: "vertexMain (u\<lparr> uTurbulence := 0, uEffect := 3 \<rparr>) cam
        (a\<lparr> originalPosition := (0, 0, 0), targetPosition := (0, 0, 0) \<rparr>) = None"
    by (simp add: vertexMain_def mix_def del: applyEffect.simps)
  have "radialDir (0, 0, 0) = Some (0, 1, 0)"
    by (simp add: radialDir_def vlength_zero)
  then show ?thesis using e m by simp
qed

section \<open>Hand force\<close>

text \<open>
  C6, as stated, fails: a hand at \<open>(0, 0, 0)\<close> is the sentinel of an absent hand, and both
  revisions of the velocity shader return no hand force for it; a particle at rest at
  \<open>(10, 0, 0)\<close> keeps the velocity zero.
\<close>

theorem hand_at_origin_counterexample:
  "handRepulsion handScenario (10, 0, 0) (uLeftHand handScenario) 0 100 200 = Some (0, 0, 0)
   \<and> computeHandForce handScenario (10, 0, 0) (uLeftHand handScenario) 0 = Some (0, 0, 0)
   \<and> velocityComputeShader handScenario (0, 0, 0) (0, 0, 0) (10, 0, 0) = Some (0, 0, 0)
   \<and> velocityComputeShader_v2 handScenario (0, 0, 0) (0, 0, 0) (10, 0, 0) = Some (0, 0, 0)
   \<and> vlength (0, 0, 0) \<noteq> 0.512 * uRepulsionForce handScenario * 200
   \<and> vlength (0, 0, 0) \<noteq> 0.512 * uRepulsionForce handScenario * 60"
  by (simp add: handScenario_def handRepulsion_def computeHandForce_def velocityComputeShader_def
      velocityComputeShader_v2_def audioImpulse_def vlength_zero vneg_def)

lemma pow_falloff: "pow (1 - 10 / 50) 3 = 0.512"
proof -
  have "(4 / 5 :: real) powr 3 = (4 / 5) ^ 3"
    by (rule powr_numeral) simp
  then show ?thesis by (simp add: pow_def power3_eq_cube)
qed

lemma pow_falloff_simp: "pow (4 / 5) 3 = 64 / 125"
  using pow_falloff by simp

lemma offset_particle: "vsub (vadd h (10, 0, 0)) h = (10, 0, 0)"
  by (cases h) simp

lemma normalize3_x: "normalize3 (10, 0, 0) = Some (1, 0, 0)"
  by (simp add: normalize3_def vlength_x_axis)

text \<open>
  C6, amended.  For a hand at a position \<open>h\<close> longer than 0.001, a hand radius of 50 and a
  particle at \<open>h + (10, 0, 0)\<close>: the falloff is 0.512; the direction before the noise is
  \<open>(1, 0, 0)\<close>; the force is the direction after noise and upward bias scaled by
  \<open>0.512 * uRepulsionForce * gain\<close>, with gain 200 in the first revision and 60 for the open
  gesture of the gesture-aware one; and the force of the direction before noise and bias
  has the magnitude \<open>0.512 * uRepulsionForce * gain\<close>.
\<close>

theorem hand_force_scenario:
  assumes "vlength h > 0.001" "uHandRadius u = 50" "0 \<le> uRepulsionForce u"
  shows "pow (1 - vlength (vsub (vadd h (10, 0, 0)) h) / uHandRadius u) 3 = 0.512
     \<and> normalize3 (vsub (vadd h (10, 0, 0)) h) = Some (1, 0, 0)
     \<and> handRepulsion u (vadd h (10, 0, 0)) h o1 o2 o3
         = map_option
             (\<lambda>d. smul (smul (smul (vadd d (0, 0.1 * 0.512, 0)) 0.512) (uRepulsionForce u)) 200)
             (normalize3 (vadd (1, 0, 0)
                (smul (snoise (noiseCoord (vadd h (10, 0, 0)) (uTime u) o1),
                       snoise (noiseCoord (vadd h (10, 0, 0)) (uTime u) o2),
                       snoise (noiseCoord (vadd h (10, 0, 0)) (uTime u) o3)) 0.3)))
     \<and> vlength (smul (smul (smul (1, 0, 0) 0.512) (uRepulsionForce u)) 200)
         = 0.512 * uRepulsionForce u * 200
     \<and> (uGesture u = 1 \<longrightarrow>
          computeHandForce u (vadd h (10, 0, 0)) h sd
            = map_option
                (\<lambda>d. smul (smul (smul (vadd d (0, 0.1 * 0.512, 0)) 0.512) (uRepulsionForce u)) 60)
                (normalize3 (vadd (1, 0, 0)
                   (smul (snoise (noiseCoord (vadd h (10, 0, 0)) (uTime u) sd),
                          snoise (noiseCoord (vadd h (10, 0, 0)) (uTime u) (sd + 100)),
                          snoise (noiseCoord (vadd h (10, 0, 0)) (uTime u) (sd + 200))) 0.3))))
     \<and> vlength (smul (smul (smul (1, 0, 0) 0.512) (uRepulsionForce u)) 60)
         = 0.512 * uRepulsionForce u * 60"
proof -
  have d: "vlength (vsub (vadd h (10, 0, 0)) h) = 10"
    by (simp add: offset_particle vlength_x_axis)
  have f: "pow (1 - vlength (vsub (vadd h (10, 0, 0)) h) / uHandRadius u) 3 = 0.512"
    using pow_falloff by (simp add: d assms(2))
  have n: "normalize3 (vsub (vadd h (10, 0, 0)) h) = Some (1, 0, 0)"
    by (simp add: offset_particle normalize3_x)
  have v1: "handRepulsion u (vadd h (10, 0, 0)) h o1 o2 o3
         = map_option
             (\<lambda>d. smul (smul (smul (vadd d (0, 0.1 * 0.512, 0)) 0.512) (uRepulsionForce u)) 200)
             (normalize3 (vadd (1, 0, 0)
                (smul (snoise (noiseCoord (vadd h (10, 0, 0)) (uTime u) o1),
                       snoise (noiseCoord (vadd h (10, 0, 0)) (uTime u) o2),
                       snoise (noiseCoord (vadd h (10, 0, 0)) (uTime u) o3)) 0.3)))"
    unfolding handRepulsion_def Let_def n d assms(2)
    using assms(1) by (simp add: pow_falloff_simp split: option.split)
  have v2: "computeHandForce u (vadd h (10, 0, 0)) h sd
            = map_option
                (\<lambda>d. smul (smul (smul (vadd d (0, 0.1 * 0.512, 0)) 0.512) (uRepulsionForce u)) 60)
                (normalize3 (vadd (1, 0, 0)
                   (smul (snoise (noiseCoord (vadd h (10, 0, 0)) (uTime u) sd),
                          snoise (noiseCoord (vadd h (10, 0, 0)) (uTime u) (sd + 100)),
                          snoise (noiseCoord (vadd h (10, 0, 0)) (uTime u) (sd + 200))) 0.3)))"
    if "uGesture u = 1"
    unfolding computeHandForce_def Let_def n d assms(2)
    using assms(1) that by (simp add: pow_falloff_simp split: option.split)
  have m: "vlength (smul (smul (smul (1, 0, 0) 0.512) (uRepulsionForce u)) k)
         = 0.512 * uRepulsionForce u * k" if "0 \<le> k" for k
    using assms(3) that by (simp add: vlength_x_axis abs_mult)
  show ?thesis
    using f n v1 v2 m [of 200] m [of 60] by simp
qed

theorem hand_force_scenario_witness:
  "vlength (20, 0, 0) > 0.001 \<and> uHandRadius handScenario = 50
   \<and> 0 \<le> uRepulsionForce handScenario
   \<and> pow (1 - vlength (vsub (vadd (20, 0, 0) (10, 0, 0)) (20, 0, 0)) / uHandRadius handScenario) 3
       = 0.512
   \<and> normalize3 (vsub (vadd (20, 0, 0) (10, 0, 0)) (20, 0, 0)) = Some (1, 0, 0)
   \<and> vlength (smul (smul (smul (1, 0, 0) 0.512) (uRepulsionForce handScenario)) 200) = 51.2
   \<and> vlength (smul (smul (smul (1, 0, 0) 0.512) (uRepulsionForce handScenario)) 60) = 15.36"
proof -
  have h: "vlength (20, 0, 0) > 0.001" "uHandRadius handScenario = 50"
    "0 \<le> uRepulsionForce handScenario"
    by (simp_all add: vlength_x_axis handScenario_def)
  have r: "uRepulsionForce handScenario = 0.5"
    by (simp add: handScenario_def)
  show ?thesis
    using hand_force_scenario [OF h, of 0 100 200 0] h
    by (simp add: r)
qed

section \<open>Count adjustment of a shape transition\<close>









section \<open>Effect transition: one frame\<close>

lemma frameHands_fields:
  "effectTransitionStageRef (frameHands d s) = effectTransitionStageRef s"
  "effectTransitionRef (frameHands d s) = effectTransitionRef s"
  "previousEffectRef (frameHands d s) = previousEffectRef s"
  "targetEffectRef (frameHands d s) = targetEffectRef s"
  "rendered (frameHands d s) = rendered s"
  by (simp_all add: frameHands_def Let_def)

lemma frameSmoothing_fields:
  "effectTransitionStageRef (frameSmoothing d s) = effectTransitionStageRef s"
  "effectTransitionRef (frameSmoothing d s) = effectTransitionRef s"
  "previousEffectRef (frameSmoothing d s) = previousEffectRef s"
  "targetEffectRef (frameSmoothing d s) = targetEffectRef s"
  "rendered (frameSmoothing d s) = rendered s"
  "material (frameSmoothing d s) = material s"
  by (simp_all add: frameSmoothing_def Let_def)

lemma frameFloat_fields:
  "effectTransitionStageRef (frameFloat t s) = effectTransitionStageRef s"
  "effectTransitionRef (frameFloat t s) = effectTransitionRef s"
  "previousEffectRef (frameFloat t s) = previousEffectRef s"
  "targetEffectRef (frameFloat t s) = targetEffectRef s"
  "rendered (frameFloat t s) = rendered s"
  by (simp_all add: frameFloat_def Let_def)

lemma frameGPGPU_fields:
  "effectTransitionStageRef (frameGPGPU d t tex s) = effectTransitionStageRef s"
  "effectTransitionRef (frameGPGPU d t tex s) = effectTransitionRef s"
  "previousEffectRef (frameGPGPU d t tex s) = previousEffectRef s"
  "targetEffectRef (frameGPGPU d t tex s) = targetEffectRef s"
  "rendered (frameGPGPU d t tex s) = rendered s"
  by (simp_all add: frameGPGPU_def Let_def split: option.split)

lemma frameAudio_fields:
  "effectTransitionStageRef (frameAudio s) = effectTransitionStageRef s"
  "effectTransitionRef (frameAudio s) = effectTransitionRef s"
  "previousEffectRef (frameAudio s) = previousEffectRef s"
  "targetEffectRef (frameAudio s) = targetEffectRef s"
  "rendered (frameAudio s) = rendered s"
  by (simp_all add: frameAudio_def Let_def)

lemma updateUniforms_fields:
  "effectTransitionStageRef (updateUniforms s) = effectTransitionStageRef s"
  "effectTransitionRef (updateUniforms s) = effectTransitionRef s"
  "previousEffectRef (updateUniforms s) = previousEffectRef s"
  "targetEffectRef (updateUniforms s) = targetEffectRef s"
  "rendered (updateUniforms s) = rendered s"
  by (simp_all add: updateUniforms_def Let_def)

lemma nextProgress_reaches:
  "1 \<le> nextProgress d s
     \<longleftrightarrow> 1 \<le> effectTransitionRef s + d * transitionSpeed (particleSettings (rendered s)) * 2"
  "3 / 10 \<le> nextProgress d s
     \<longleftrightarrow> 3 / 10 \<le> effectTransitionRef s + d * transitionSpeed (particleSettings (rendered s)) * 2"
  by (simp_all add: nextProgress_def)

lemma frameEffect_rendered: "rendered (frameEffect d s) = rendered s"
  by (cases "effectTransitionStageRef s") (simp_all add: frameEffect_def Let_def)

lemma frameEffect_idle:
  assumes "effectTransitionStageRef s = idle"
  shows "effectTransitionStageRef (frameEffect d s) = idle"
    and "effectTransitionRef (frameEffect d s) = effectTransitionRef s"
    and "previousEffectRef (frameEffect d s) = previousEffectRef s"
    and "targetEffectRef (frameEffect d s) = targetEffectRef s"
    and "uEffect (material (frameEffect d s)) = effectToIndex (currentEffect (rendered s))"
    and "uEffectIntensity (material (frameEffect d s)) = effectIntensity (rendered s)"
  using assms by (simp_all add: frameEffect_def Let_def)

lemma frameEffect_step:
  assumes "effectTransitionStageRef s = X" "X \<noteq> idle"
  shows "targetEffectRef (frameEffect d s) = targetEffectRef s"
    and "nextProgress d s < stageThreshold X \<Longrightarrow>
           effectTransitionStageRef (frameEffect d s) = X
         \<and> effectTransitionRef (frameEffect d s) = nextProgress d s
         \<and> previousEffectRef (frameEffect d s) = previousEffectRef s"
    and "stageThreshold X \<le> nextProgress d s \<Longrightarrow>
           effectTransitionStageRef (frameEffect d s) = nextStage X
         \<and> (X \<noteq> fadeIn \<longrightarrow> effectTransitionRef (frameEffect d s) = 0)
         \<and> (X = fadeIn \<longrightarrow> previousEffectRef (frameEffect d s) = targetEffectRef s)"
proof -
  have n: "\<not> 1 \<le> effectTransitionRef s + d * transitionSpeed (particleSettings (rendered s)) * 2"
    if "nextProgress d s < 1"
    using that nextProgress_reaches(1) [of d s] by simp
  have m: "\<not> 3 / 10 \<le> effectTransitionRef s + d * transitionSpeed (particleSettings (rendered s)) * 2"
    if "nextProgress d s < 3 / 10"
    using that nextProgress_reaches(2) [of d s] by simp
  show "targetEffectRef (frameEffect d s) = targetEffectRef s"
    using assms by (cases X) (simp_all add: frameEffect_def Let_def)
  show "effectTransitionStageRef (frameEffect d s) = X
         \<and> effectTransitionRef (frameEffect d s) = nextProgress d s
         \<and> previousEffectRef (frameEffect d s) = previousEffectRef s"
    if "nextProgress d s < stageThreshold X"
    using assms that n m
    by (cases X) (simp_all add: frameEffect_def Let_def nextProgress_def [symmetric])
  show "effectTransitionStageRef (frameEffect d s) = nextStage X
         \<and> (X \<noteq> fadeIn \<longrightarrow> effectTransitionRef (frameEffect d s) = 0)
         \<and> (X = fadeIn \<longrightarrow> previousEffectRef (frameEffect d s) = targetEffectRef s)"
    if "stageThreshold X \<le> nextProgress d s"
  proof (cases X)
    case idle
    then show ?thesis using assms by simp
  next
    case showNone
    then show ?thesis
      using assms that by (simp add: frameEffect_def Let_def nextProgress_def [symmetric])
  next
    case fadeOut
    then show ?thesis
      using assms that nextProgress_reaches(1) [of d s] by (simp add: frameEffect_def Let_def)
  next
    case fadeIn
    then show ?thesis
      using assms that nextProgress_reaches(1) [of d s] by (simp add: frameEffect_def Let_def)
  qed
qed

lemma uTime_fields:
  "effectTransitionStageRef (s\<lparr> material := m \<rparr>) = effectTransitionStageRef s"
  "effectTransitionRef (s\<lparr> material := m \<rparr>) = effectTransitionRef s"
  "previousEffectRef (s\<lparr> material := m \<rparr>) = previousEffectRef s"
  "targetEffectRef (s\<lparr> material := m \<rparr>) = targetEffectRef s"
  "rendered (s\<lparr> material := m \<rparr>) = rendered s"
  by simp_all

lemma nextProgress_pre:
  "nextProgress d (frameHands d (s\<lparr> material := m \<rparr>)) = nextProgress d s"
  by (simp add: nextProgress_def frameHands_fields)

lemmas later_fields = updateUniforms_fields frameAudio_fields frameGPGPU_fields frameFloat_fields
  frameSmoothing_fields

lemma useFrame_rendered: "rendered (useFrame d t tex s) = rendered s"
  by (simp add: useFrame_def later_fields frameEffect_rendered frameHands_fields)

lemma useFrame_step:
  assumes "effectTransitionStageRef s = X" "X \<noteq> idle"
  shows "targetEffectRef (useFrame d t tex s) = targetEffectRef s"
    and "nextProgress d s < stageThreshold X \<Longrightarrow>
           effectTransitionStageRef (useFrame d t tex s) = X
         \<and> effectTransitionRef (useFrame d t tex s) = nextProgress d s
         \<and> previousEffectRef (useFrame d t tex s) = previousEffectRef s"
    and "stageThreshold X \<le> nextProgress d s \<Longrightarrow>
           effectTransitionStageRef (useFrame d t tex s) = nextStage X
         \<and> (X \<noteq> fadeIn \<longrightarrow> effectTransitionRef (useFrame d t tex s) = 0)
         \<and> (X = fadeIn \<longrightarrow> previousEffectRef (useFrame d t tex s) = targetEffectRef s)"
proof -
  define s1 where "s1 = frameHands d (s\<lparr> material := (material s)\<lparr> uTime := t \<rparr> \<rparr>)"
  have st: "effectTransitionStageRef s1 = X"
    and f: "targetEffectRef s1 = targetEffectRef s" "previousEffectRef s1 = previousEffectRef s"
    and np: "nextProgress d s1 = nextProgress d s"
    using assms(1) by (simp_all add: s1_def frameHands_fields nextProgress_pre)
  have u: "effectTransitionStageRef (useFrame d t tex s) = effectTransitionStageRef (frameEffect d s1)"
    "effectTransitionRef (useFrame d t tex s) = effectTransitionRef (frameEffect d s1)"
    "previousEffectRef (useFrame d t tex s) = previousEffectRef (frameEffect d s1)"
    "targetEffectRef (useFrame d t tex s) = targetEffectRef (frameEffect d s1)"
    by (simp_all add: useFrame_def later_fields s1_def)
  show "targetEffectRef (useFrame d t tex s) = targetEffectRef s"
    using frameEffect_step(1) [OF st assms(2)] by (simp add: u f)
  show "effectTransitionStageRef (useFrame d t tex s) = X
         \<and> effectTransitionRef (useFrame d t tex s) = nextProgress d s
         \<and> previousEffectRef (useFrame d t tex s) = previousEffectRef s"
    if "nextProgress d s < stageThreshold X"
    using frameEffect_step(2) [OF st assms(2), of d] that by (simp add: u f np)
  show "effectTransitionStageRef (useFrame d t tex s) = nextStage X
         \<and> (X \<noteq> fadeIn \<longrightarrow> effectTransitionRef (useFrame d t tex s) = 0)
         \<and> (X = fadeIn \<longrightarrow> previousEffectRef (useFrame d t tex s) = targetEffectRef s)"
    if "stageThreshold X \<le> nextProgress d s"
    using frameEffect_step(3) [OF st assms(2), of d] that by (simp add: u f np)
qed

lemma later_uEffect:
  "uEffect (material (updateUniforms s)) = uEffect (material s)"
  "uEffectIntensity (material (updateUniforms s)) = uEffectIntensity (material s)"
  "uEffect (material (frameAudio s)) = uEffect (material s)"
  "uEffectIntensity (material (frameAudio s)) = uEffectIntensity (material s)"
  "uEffect (material (frameGPGPU d t tex s)) = uEffect (material s)"
  "uEffectIntensity (material (frameGPGPU d t tex s)) = uEffectIntensity (material s)"
  "uEffect (material (frameFloat t s)) = uEffect (material s)"
  "uEffectIntensity (material (frameFloat t s)) = uEffectIntensity (material s)"
  by (simp_all add: updateUniforms_def frameAudio_def frameGPGPU_def frameFloat_def Let_def
      split: option.split)

lemma useFrame_idle:
  assumes "effectTransitionStageRef s = idle"
  shows "effectTransitionStageRef (useFrame d t tex s) = idle"
    and "effectTransitionRef (useFrame d t tex s) = effectTransitionRef s"
    and "previousEffectRef (useFrame d t tex s) = previousEffectRef s"
    and "targetEffectRef (useFrame d t tex s) = targetEffectRef s"
    and "uEffect (material (useFrame d t tex s)) = effectToIndex (currentEffect (rendered s))"
    and "uEffectIntensity (material (useFrame d t tex s)) = effectIntensity (rendered s)"
proof -
  define s1 where "s1 = frameHands d (s\<lparr> material := (material s)\<lparr> uTime := t \<rparr> \<rparr>)"
  have st: "effectTransitionStageRef s1 = idle"
    and f: "targetEffectRef s1 = targetEffectRef s" "previousEffectRef s1 = previousEffectRef s"
      "effectTransitionRef s1 = effectTransitionRef s" "rendered s1 = rendered s"
    using assms(1) by (simp_all add: s1_def frameHands_fields)
  show "effectTransitionStageRef (useFrame d t tex s) = idle"
    and "effectTransitionRef (useFrame d t tex s) = effectTransitionRef s"
    and "previousEffectRef (useFrame d t tex s) = previousEffectRef s"
    and "targetEffectRef (useFrame d t tex s) = targetEffectRef s"
    and "uEffect (material (useFrame d t tex s)) = effectToIndex (currentEffect (rendered s))"
    and "uEffectIntensity (material (useFrame d t tex s)) = effectIntensity (rendered s)"
    using frameEffect_idle [OF st, of d]
    by (simp_all add: useFrame_def later_fields later_uEffect s1_def [symmetric] f)
qed

lemma render_rendered: "rendered (render s p) = p"
  by (simp add: render_def Let_def)

lemma render_in_flight:
  assumes "effectTransitionStageRef s \<noteq> idle"
  shows "effectTransitionStageRef (render s p) = effectTransitionStageRef s"
    and "effectTransitionRef (render s p) = effectTransitionRef s"
    and "previousEffectRef (render s p) = previousEffectRef s"
    and "targetEffectRef (render s p) = targetEffectRef s"
  using assms by (simp_all add: render_def effectChange_def Let_def)

lemma render_starts:
  assumes "effectTransitionStageRef s = idle" "currentEffect p \<noteq> previousEffectRef s"
    and "currentEffect p \<noteq> currentEffect (rendered s)
         \<or> effectIntensity p \<noteq> effectIntensity (rendered s)"
  shows "effectTransitionStageRef (render s p) = fadeOut"
    and "effectTransitionRef (render s p) = 0"
    and "previousEffectRef (render s p) = previousEffectRef s"
    and "targetEffectRef (render s p) = currentEffect p"
  using assms by (auto simp: render_def effectChange_def Let_def)

lemma renders_in_flight:
  assumes "effectTransitionStageRef s \<noteq> idle"
  shows "effectTransitionStageRef (foldl render s ps) = effectTransitionStageRef s
       \<and> effectTransitionRef (foldl render s ps) = effectTransitionRef s
       \<and> previousEffectRef (foldl render s ps) = previousEffectRef s
       \<and> targetEffectRef (foldl render s ps) = targetEffectRef s"
  using assms
proof (induction ps arbitrary: s)
  case Nil
  then show ?case by simp
next
  case (Cons p ps)
  then show ?case by (simp add: render_in_flight)
qed

lemma renders_rendered:
  "rendered (foldl render s ps) = (if ps = [] then rendered s else last ps)"
  by (induction ps arbitrary: s) (simp_all add: render_rendered)

lemma paced_shift: "paced dmin smin inp \<Longrightarrow> paced dmin smin (\<lambda>i. inp (m + i))"
  by (simp add: paced_def)

lemma run_add: "run inp (m + n) s = run (\<lambda>i. inp (m + i)) n (run inp m s)"
  by (induction n) simp_all

lemma run_Suc_shift: "run inp (Suc n) s = run (\<lambda>i. inp (Suc i)) n (frame s (inp 0))"
  using run_add [of inp 1 n s] by simp

lemma frame_rendered_speed:
  assumes "smin \<le> transitionSpeed (particleSettings (rendered s))"
    and "\<forall>q \<in> set (renders i). smin \<le> transitionSpeed (particleSettings q)"
  shows "smin \<le> transitionSpeed (particleSettings (rendered (foldl render s (renders i))))"
    and "smin \<le> transitionSpeed (particleSettings (rendered (frame s i)))"
proof -
  show a: "smin \<le> transitionSpeed (particleSettings (rendered (foldl render s (renders i))))"
    using assms by (simp add: renders_rendered)
  show "smin \<le> transitionSpeed (particleSettings (rendered (frame s i)))"
    using a by (simp add: frame_def useFrame_rendered)
qed

lemma frame_step:
  assumes st: "effectTransitionStageRef s = X" "X \<noteq> idle"
    and sp: "smin \<le> transitionSpeed (particleSettings (rendered s))"
    and rs: "\<forall>q \<in> set (renders i). smin \<le> transitionSpeed (particleSettings q)"
    and d: "dmin \<le> delta i" and pos: "0 < dmin" "0 < smin"
  shows "targetEffectRef (frame s i) = targetEffectRef s"
    and "(effectTransitionStageRef (frame s i) = nextStage X
          \<and> (X \<noteq> fadeIn \<longrightarrow> effectTransitionRef (frame s i) = 0)
          \<and> (X = fadeIn \<longrightarrow> previousEffectRef (frame s i) = targetEffectRef s))
       \<or> (effectTransitionStageRef (frame s i) = X
          \<and> effectTransitionRef s + dmin * smin * 2 \<le> effectTransitionRef (frame s i))"
    and "stageThreshold X \<le> effectTransitionRef s + dmin * smin * 2 \<Longrightarrow>
         effectTransitionStageRef (frame s i) = nextStage X"
proof -
  define r where "r = foldl render s (renders i)"
  have fl: "effectTransitionStageRef r = X" "effectTransitionRef r = effectTransitionRef s"
    "previousEffectRef r = previousEffectRef s" "targetEffectRef r = targetEffectRef s"
    using renders_in_flight [of s "renders i"] st by (simp_all add: r_def)
  have spr: "smin \<le> transitionSpeed (particleSettings (rendered r))"
    using frame_rendered_speed(1) [OF sp rs] by (simp add: r_def)
  have "dmin * smin \<le> delta i * transitionSpeed (particleSettings (rendered r))"
    using d spr pos by (intro mult_mono) simp_all
  then have inc: "effectTransitionRef s + dmin * smin * 2
      \<le> effectTransitionRef s + delta i * transitionSpeed (particleSettings (rendered r)) * 2"
    by simp
  have fr: "frame s i = useFrame (delta i) (elapsedTime i) (posTexture i) r"
    by (simp add: frame_def r_def)
  have th1: "stageThreshold X \<le> 1"
    by (cases X) simp_all
  show "targetEffectRef (frame s i) = targetEffectRef s"
    using useFrame_step(1) [OF fl(1) st(2)] by (simp add: fr fl)
  show "(effectTransitionStageRef (frame s i) = nextStage X
          \<and> (X \<noteq> fadeIn \<longrightarrow> effectTransitionRef (frame s i) = 0)
          \<and> (X = fadeIn \<longrightarrow> previousEffectRef (frame s i) = targetEffectRef s))
       \<or> (effectTransitionStageRef (frame s i) = X
          \<and> effectTransitionRef s + dmin * smin * 2 \<le> effectTransitionRef (frame s i))"
  proof (cases "stageThreshold X \<le> nextProgress (delta i) r")
    case True
    then show ?thesis
      using useFrame_step(3) [OF fl(1) st(2), of "delta i"] by (simp add: fr fl)
  next
    case False
    then have lt: "nextProgress (delta i) r < stageThreshold X" by simp
    then have "nextProgress (delta i) r
        = effectTransitionRef s + delta i * transitionSpeed (particleSettings (rendered r)) * 2"
      using th1 by (simp add: nextProgress_def fl min_def split: if_splits)
    then show ?thesis
      using useFrame_step(2) [OF fl(1) st(2) lt] inc by (simp add: fr)
  qed
  show "effectTransitionStageRef (frame s i) = nextStage X"
    if "stageThreshold X \<le> effectTransitionRef s + dmin * smin * 2"
  proof -
    have "stageThreshold X \<le> nextProgress (delta i) r"
      using that inc th1 by (simp add: nextProgress_def fl)
    then show ?thesis
      using useFrame_step(3) [OF fl(1) st(2), of "delta i"] by (simp add: fr)
  qed
qed

lemma stage_completes:
  assumes pos: "0 < dmin" "0 < smin"
  shows "effectTransitionStageRef s = X \<Longrightarrow> X \<noteq> idle
     \<Longrightarrow> smin \<le> transitionSpeed (particleSettings (rendered s))
     \<Longrightarrow> paced dmin smin inp
     \<Longrightarrow> stageThreshold X \<le> effectTransitionRef s + real (Suc k) * (dmin * smin * 2)
     \<Longrightarrow> \<exists>n. 0 < n
           \<and> (\<forall>j<n. effectTransitionStageRef (run inp j s) = X)
           \<and> effectTransitionStageRef (run inp n s) = nextStage X
           \<and> targetEffectRef (run inp n s) = targetEffectRef s
           \<and> smin \<le> transitionSpeed (particleSettings (rendered (run inp n s)))
           \<and> (X \<noteq> fadeIn \<longrightarrow> effectTransitionRef (run inp n s) = 0)
           \<and> (X = fadeIn \<longrightarrow> previousEffectRef (run inp n s) = targetEffectRef s)"
proof (induction k arbitrary: s inp)
  case 0
  have i0: "dmin \<le> delta (inp 0)"
    "\<forall>q \<in> set (renders (inp 0)). smin \<le> transitionSpeed (particleSettings q)"
    using "0.prems"(4) by (simp_all add: paced_def)
  have th: "stageThreshold X \<le> effectTransitionRef s + dmin * smin * 2"
    using "0.prems"(5) by simp
  note fs = frame_step [OF "0.prems"(1,2,3) i0(2,1) pos]
  have "effectTransitionStageRef (frame s (inp 0)) = nextStage X"
    using fs(3) [OF th] .
  moreover have "nextStage X \<noteq> X" using "0.prems"(2) by (cases X) simp_all
  ultimately have fin1: "effectTransitionStageRef (frame s (inp 0)) = nextStage X
          \<and> (X \<noteq> fadeIn \<longrightarrow> effectTransitionRef (frame s (inp 0)) = 0)
          \<and> (X = fadeIn \<longrightarrow> previousEffectRef (frame s (inp 0)) = targetEffectRef s)"
    using fs(2) by auto
  show ?case
    apply (rule exI [of _ 1])
    using fin1 fs(1) "0.prems"(1) frame_rendered_speed(2) [OF "0.prems"(3) i0(2)]
    by simp
next
  case (Suc k)
  have i0: "dmin \<le> delta (inp 0)"
    "\<forall>q \<in> set (renders (inp 0)). smin \<le> transitionSpeed (particleSettings q)"
    using Suc.prems(4) by (simp_all add: paced_def)
  note fs = frame_step [OF Suc.prems(1,2,3) i0(2,1) pos]
  define s' where "s' = frame s (inp 0)"
  have sp': "smin \<le> transitionSpeed (particleSettings (rendered s'))"
    using frame_rendered_speed(2) [OF Suc.prems(3) i0(2)] by (simp add: s'_def)
  have tg: "targetEffectRef s' = targetEffectRef s"
    using fs(1) by (simp add: s'_def)
  consider (fin) "effectTransitionStageRef s' = nextStage X
          \<and> (X \<noteq> fadeIn \<longrightarrow> effectTransitionRef s' = 0)
          \<and> (X = fadeIn \<longrightarrow> previousEffectRef s' = targetEffectRef s)"
    | (go) "effectTransitionStageRef s' = X
          \<and> effectTransitionRef s + dmin * smin * 2 \<le> effectTransitionRef s'"
    using fs(2) by (auto simp: s'_def)
  then show ?case
  proof cases
    case fin
    show ?thesis
      apply (rule exI [of _ 1])
      using fin tg sp' Suc.prems(1) by (simp add: s'_def)
  next
    case go
    have th: "stageThreshold X \<le> effectTransitionRef s' + real (Suc k) * (dmin * smin * 2)"
      using go Suc.prems(5) by (simp add: algebra_simps)
    have pc: "paced dmin smin (\<lambda>i. inp (Suc i))"
      using paced_shift [OF Suc.prems(4), of 1] by simp
    obtain n where n: "0 < n"
      "\<forall>j<n. effectTransitionStageRef (run (\<lambda>i. inp (Suc i)) j s') = X"
      "effectTransitionStageRef (run (\<lambda>i. inp (Suc i)) n s') = nextStage X"
      "targetEffectRef (run (\<lambda>i. inp (Suc i)) n s') = targetEffectRef s'"
      "smin \<le> transitionSpeed (particleSettings (rendered (run (\<lambda>i. inp (Suc i)) n s')))"
      "X \<noteq> fadeIn \<longrightarrow> effectTransitionRef (run (\<lambda>i. inp (Suc i)) n s') = 0"
      "X = fadeIn \<longrightarrow> previousEffectRef (run (\<lambda>i. inp (Suc i)) n s') = targetEffectRef s'"
      using Suc.IH [of s' "\<lambda>i. inp (Suc i)"] go Suc.prems(2) sp' pc th by blast
    have sh: "run inp (Suc j) s = run (\<lambda>i. inp (Suc i)) j s'" for j
      by (simp only: run_Suc_shift s'_def)
    have before: "effectTransitionStageRef (run inp j s) = X" if "j < Suc n" for j
    proof (cases j)
      case 0
      then show ?thesis using Suc.prems(1) by simp
    next
      case (Suc j')
      then have "j' < n" using that by simp
      then have "effectTransitionStageRef (run (\<lambda>i. inp (Suc i)) j' s') = X"
        using n(2) by blast
      then show ?thesis by (simp only: Suc sh)
    qed
    show ?thesis
      apply (rule exI [of _ "Suc n"])
      using before n(3-7) tg unfolding sh by simp
  qed
qed

lemmas run_defs = eval_nat_numeral requestDuringFlight_def waveRequested_def firstRender_def
      mount_def defaultProps_def render_def effectChange_def frame_def useFrame_def
      updateUniforms_def frameAudio_def frameGPGPU_def frameFloat_def frameSmoothing_def
      frameEffect_def frameHands_def lerp_def audioBand_def Let_def

text \<open>
  C3, amended.  From an idle machine, a render that changes the selected effect or the
  effect intensity and selects an effect other than the recorded previous one
  (\<^verbatim>\<open>previousEffectRef\<close>) starts the fadeOut stage.  Then, for every stream of frames whose
  deltas and transition speeds stay above positive bounds, whatever renders (further effect
  requests included) arrive between the frames: the stage is fadeOut for the first
  \<open>n1 > 0\<close> frames, showNone from frame \<open>n1\<close> up to \<open>n2 > n1\<close>, fadeIn from \<open>n2\<close> up to
  \<open>n3 > n2\<close>, and idle after frame \<open>n3\<close>, where the previous and the target effect are the
  effect the first request selected.
\<close>

theorem effect_transition_stages:
  assumes "effectTransitionStageRef s0 = idle"
    and "currentEffect p \<noteq> previousEffectRef s0"
    and "currentEffect p \<noteq> currentEffect (rendered s0)
         \<or> effectIntensity p \<noteq> effectIntensity (rendered s0)"
    and "0 < dmin" "0 < smin"
    and "smin \<le> transitionSpeed (particleSettings p)"
    and "paced dmin smin inp"
  shows "\<exists>n1 n2 n3. 0 < n1 \<and> n1 < n2 \<and> n2 < n3
     \<and> (\<forall>j<n1. effectTransitionStageRef (run inp j (render s0 p)) = fadeOut)
     \<and> (\<forall>j. n1 \<le> j \<and> j < n2 \<longrightarrow> effectTransitionStageRef (run inp j (render s0 p)) = showNone)
     \<and> (\<forall>j. n2 \<le> j \<and> j < n3 \<longrightarrow> effectTransitionStageRef (run inp j (render s0 p)) = fadeIn)
     \<and> effectTransitionStageRef (run inp n3 (render s0 p)) = idle
     \<and> previousEffectRef (run inp n3 (render s0 p)) = currentEffect p
     \<and> targetEffectRef (run inp n3 (render s0 p)) = currentEffect p"
proof -
  define c where "c = dmin * smin * 2"
  have c: "0 < c" using assms(4,5) by (simp add: c_def)
  define s1 where "s1 = render s0 p"
  have s1: "effectTransitionStageRef s1 = fadeOut" "effectTransitionRef s1 = 0"
    "targetEffectRef s1 = currentEffect p"
    "smin \<le> transitionSpeed (particleSettings (rendered s1))"
    using render_starts [OF assms(1,2,3)] assms(6) by (simp_all add: s1_def render_rendered)
  obtain k where k: "1 < real k * c"
    using ex_less_of_nat_mult [OF c, of 1] by auto
  have k1: "1 \<le> real (Suc k) * (dmin * smin * 2)"
    using k c by (simp add: algebra_simps c_def)
  have ne: "fadeOut \<noteq> idle" "showNone \<noteq> idle" "fadeIn \<noteq> idle" by simp_all
  \<comment> \<open>fadeOut\<close>
  have th1: "stageThreshold fadeOut \<le> effectTransitionRef s1 + real (Suc k) * (dmin * smin * 2)"
    using k1 by (simp add: s1(2))
  have "\<exists>n. 0 < n
           \<and> (\<forall>j<n. effectTransitionStageRef (run inp j s1) = fadeOut)
           \<and> effectTransitionStageRef (run inp n s1) = nextStage fadeOut
           \<and> targetEffectRef (run inp n s1) = targetEffectRef s1
           \<and> smin \<le> transitionSpeed (particleSettings (rendered (run inp n s1)))
           \<and> (fadeOut \<noteq> fadeIn \<longrightarrow> effectTransitionRef (run inp n s1) = 0)
           \<and> (fadeOut = fadeIn \<longrightarrow> previousEffectRef (run inp n s1) = targetEffectRef s1)"
    by (rule stage_completes [OF assms(4,5) s1(1) ne(1) s1(4) assms(7) th1])
  then obtain n1 where n1: "0 < n1" "\<forall>j<n1. effectTransitionStageRef (run inp j s1) = fadeOut"
    "effectTransitionStageRef (run inp n1 s1) = showNone"
    "targetEffectRef (run inp n1 s1) = currentEffect p"
    "smin \<le> transitionSpeed (particleSettings (rendered (run inp n1 s1)))"
    "effectTransitionRef (run inp n1 s1) = 0"
    unfolding s1(3) by (elim exE conjE) simp
  \<comment> \<open>showNone\<close>
  define a where "a = run inp n1 s1"
  define inp1 where "inp1 = (\<lambda>i. inp (n1 + i))"
  have p1: "paced dmin smin inp1"
    using paced_shift [OF assms(7)] by (simp add: inp1_def)
  have a: "effectTransitionStageRef a = showNone" "targetEffectRef a = currentEffect p"
    "smin \<le> transitionSpeed (particleSettings (rendered a))" "effectTransitionRef a = 0"
    using n1(3-6) by (simp_all only: a_def)
  have th2: "stageThreshold showNone \<le> effectTransitionRef a + real (Suc k) * (dmin * smin * 2)"
    using k1 by (simp add: a(4))
  have "\<exists>n. 0 < n
           \<and> (\<forall>j<n. effectTransitionStageRef (run inp1 j a) = showNone)
           \<and> effectTransitionStageRef (run inp1 n a) = nextStage showNone
           \<and> targetEffectRef (run inp1 n a) = targetEffectRef a
           \<and> smin \<le> transitionSpeed (particleSettings (rendered (run inp1 n a)))
           \<and> (showNone \<noteq> fadeIn \<longrightarrow> effectTransitionRef (run inp1 n a) = 0)
           \<and> (showNone = fadeIn \<longrightarrow> previousEffectRef (run inp1 n a) = targetEffectRef a)"
    by (rule stage_completes [OF assms(4,5) a(1) ne(2) a(3) p1 th2])
  then obtain m2 where m2: "0 < m2" "\<forall>j<m2. effectTransitionStageRef (run inp1 j a) = showNone"
    "effectTransitionStageRef (run inp1 m2 a) = fadeIn"
    "targetEffectRef (run inp1 m2 a) = currentEffect p"
    "smin \<le> transitionSpeed (particleSettings (rendered (run inp1 m2 a)))"
    "effectTransitionRef (run inp1 m2 a) = 0"
    unfolding a(2) by (elim exE conjE) simp
  \<comment> \<open>fadeIn\<close>
  define b where "b = run inp1 m2 a"
  define inp2 where "inp2 = (\<lambda>i. inp (n1 + m2 + i))"
  have p2: "paced dmin smin inp2"
    using paced_shift [OF assms(7)] by (simp add: inp2_def)
  have b: "effectTransitionStageRef b = fadeIn" "targetEffectRef b = currentEffect p"
    "smin \<le> transitionSpeed (particleSettings (rendered b))" "effectTransitionRef b = 0"
    using m2(3-6) by (simp_all only: b_def)
  have th3: "stageThreshold fadeIn \<le> effectTransitionRef b + real (Suc k) * (dmin * smin * 2)"
    using k1 by (simp add: b(4))
  have "\<exists>n. 0 < n
           \<and> (\<forall>j<n. effectTransitionStageRef (run inp2 j b) = fadeIn)
           \<and> effectTransitionStageRef (run inp2 n b) = nextStage fadeIn
           \<and> targetEffectRef (run inp2 n b) = targetEffectRef b
           \<and> smin \<le> transitionSpeed (particleSettings (rendered (run inp2 n b)))
           \<and> (fadeIn \<noteq> fadeIn \<longrightarrow> effectTransitionRef (run inp2 n b) = 0)
           \<and> (fadeIn = fadeIn \<longrightarrow> previousEffectRef (run inp2 n b) = targetEffectRef b)"
    by (rule stage_completes [OF assms(4,5) b(1) ne(3) b(3) p2 th3])
  then obtain m3 where m3: "0 < m3" "\<forall>j<m3. effectTransitionStageRef (run inp2 j b) = fadeIn"
    "effectTransitionStageRef (run inp2 m3 b) = idle"
    "targetEffectRef (run inp2 m3 b) = currentEffect p"
    "previousEffectRef (run inp2 m3 b) = currentEffect p"
    unfolding b(2) by (elim exE conjE) simp
  have ra: "run inp (n1 + j) s1 = run inp1 j a" for j
    by (simp add: run_add a_def inp1_def)
  have rb: "run inp (n1 + m2 + j) s1 = run inp2 j b" for j
    using run_add [of inp "n1 + m2" j s1] ra [of m2] by (simp add: b_def inp2_def)
  have mid: "effectTransitionStageRef (run inp j s1) = showNone" if "n1 \<le> j" "j < n1 + m2" for j
  proof -
    define j' where "j' = j - n1"
    have j': "j = n1 + j'" "j' < m2"
      using that by (simp_all add: j'_def)
    have "effectTransitionStageRef (run inp1 j' a) = showNone"
      using m2(2) j'(2) by blast
    then show ?thesis by (simp only: j'(1) ra)
  qed
  have last: "effectTransitionStageRef (run inp j s1) = fadeIn"
    if "n1 + m2 \<le> j" "j < n1 + m2 + m3" for j
  proof -
    define j' where "j' = j - (n1 + m2)"
    have j': "j = n1 + m2 + j'" "j' < m3"
      using that by (simp_all add: j'_def)
    have "effectTransitionStageRef (run inp2 j' b) = fadeIn"
      using m3(2) j'(2) by blast
    then show ?thesis by (simp only: j'(1) rb)
  qed
  have fin: "effectTransitionStageRef (run inp (n1 + m2 + m3) s1) = idle"
    "previousEffectRef (run inp (n1 + m2 + m3) s1) = currentEffect p"
    "targetEffectRef (run inp (n1 + m2 + m3) s1) = currentEffect p"
    using m3(3-5) by (simp_all only: rb)
  show ?thesis
    unfolding s1_def [symmetric]
    apply (rule exI [of _ n1], rule exI [of _ "n1 + m2"], rule exI [of _ "n1 + m2 + m3"])
    using n1(1,2) m2(1) m3(1) mid last fin by simp
qed

theorem effect_transition_stages_witness:
  "effectTransitionStageRef (firstRender defaultProps) = idle
   \<and> currentEffect (defaultProps\<lparr> currentEffect := fx_wave \<rparr>)
       \<noteq> previousEffectRef (firstRender defaultProps)
   \<and> (0::real) < 1 / 2
   \<and> 1 / 2 \<le> transitionSpeed (particleSettings (defaultProps\<lparr> currentEffect := fx_wave \<rparr>))
   \<and> paced (1 / 2) (1 / 2) requestDuringFlight
   \<and> renders (requestDuringFlight 1) = [defaultProps\<lparr> currentEffect := fx_spiral \<rparr>]
   \<and> (\<exists>n1 n2 n3. 0 < n1 \<and> n1 < n2 \<and> n2 < n3
     \<and> (\<forall>j<n1. effectTransitionStageRef (run requestDuringFlight j waveRequested) = fadeOut)
     \<and> (\<forall>j. n1 \<le> j \<and> j < n2 \<longrightarrow>
            effectTransitionStageRef (run requestDuringFlight j waveRequested) = showNone)
     \<and> (\<forall>j. n2 \<le> j \<and> j < n3 \<longrightarrow>
            effectTransitionStageRef (run requestDuringFlight j waveRequested) = fadeIn)
     \<and> effectTransitionStageRef (run requestDuringFlight n3 waveRequested) = idle
     \<and> previousEffectRef (run requestDuringFlight n3 waveRequested) = fx_wave
     \<and> targetEffectRef (run requestDuringFlight n3 waveRequested) = fx_wave)"
proof -
  have h: "effectTransitionStageRef (firstRender defaultProps) = idle"
    "currentEffect (defaultProps\<lparr> currentEffect := fx_wave \<rparr>)
       \<noteq> previousEffectRef (firstRender defaultProps)"
    "currentEffect (defaultProps\<lparr> currentEffect := fx_wave \<rparr>)
       \<noteq> currentEffect (rendered (firstRender defaultProps))
     \<or> effectIntensity (defaultProps\<lparr> currentEffect := fx_wave \<rparr>)
       \<noteq> effectIntensity (rendered (firstRender defaultProps))"
    by (simp_all add: firstRender_def mount_def effectChange_def defaultProps_def)
  have q: "(0::real) < 1 / 2"
    "1 / 2 \<le> transitionSpeed (particleSettings (defaultProps\<lparr> currentEffect := fx_wave \<rparr>))"
    by (simp_all add: defaultProps_def)
  have p: "paced (1 / 2) (1 / 2) requestDuringFlight"
    by (simp add: paced_def requestDuringFlight_def defaultProps_def)
  have r: "renders (requestDuringFlight 1) = [defaultProps\<lparr> currentEffect := fx_spiral \<rparr>]"
    by (simp add: requestDuringFlight_def)
  show ?thesis
    using effect_transition_stages [OF h q(1) q(1) q(2) p] h(1,2) q p r
    by (simp add: waveRequested_def)
qed

text \<open>
  C3, as stated, fails.  After a request that arrived in flight the machine is idle with
  wave as its previous effect while the spiral effect is selected and shown.  Selecting
  wave then is an effect change with a positive delta and a positive transition speed,
  and it starts no stage: the machine stays idle after the render and over the following
  frames, and the next frame shows wave at the full intensity.
\<close>

theorem reselected_effect_counterexample:
  "effectTransitionStageRef (run reselectPrevious 6 waveRequested) = idle
   \<and> previousEffectRef (run reselectPrevious 6 waveRequested) = fx_wave
   \<and> currentEffect (rendered (run reselectPrevious 6 waveRequested)) = fx_spiral
   \<and> uEffect (material (run reselectPrevious 6 waveRequested)) = effectToIndex fx_spiral
   \<and> renders (reselectPrevious 6) = [defaultProps\<lparr> currentEffect := fx_wave \<rparr>]
   \<and> 0 < delta (reselectPrevious 6)
   \<and> 0 < transitionSpeed (particleSettings (defaultProps\<lparr> currentEffect := fx_wave \<rparr>))
   \<and> effectTransitionStageRef
         (render (run reselectPrevious 6 waveRequested) (defaultProps\<lparr> currentEffect := fx_wave \<rparr>))
       = idle
   \<and> effectTransitionStageRef (run reselectPrevious 7 waveRequested) = idle
   \<and> currentEffect (rendered (run reselectPrevious 7 waveRequested)) = fx_wave
   \<and> uEffect (material (run reselectPrevious 7 waveRequested)) = effectToIndex fx_wave
   \<and> uEffectIntensity (material (run reselectPrevious 7 waveRequested)) = 1 / 2
   \<and> effectTransitionStageRef (run reselectPrevious 8 waveRequested) = idle
   \<and> effectTransitionStageRef (run reselectPrevious 9 waveRequested) = idle
   \<and> effectTransitionStageRef (run reselectPrevious 10 waveRequested) = idle"
  by (simp add: run_defs reselectPrevious_def)

text \<open>
  Positive deltas alone do not end a stage either: with the deltas of \<open>shrinkingDeltas\<close>,
  whose sum stays below 1, the progress of the fadeOut stage is \<open>1 - 1 / 2 ^ n\<close> after \<open>n\<close>
  frames and the stage never ends.  This is why the amended statement asks for a positive
  lower bound of the deltas and of the transition speeds.
\<close>

lemma shrinkingDeltas_progress:
  "effectTransitionStageRef (run shrinkingDeltas n waveRequested) = fadeOut
   \<and> effectTransitionRef (run shrinkingDeltas n waveRequested) = 1 - 1 / 2 ^ n
   \<and> transitionSpeed (particleSettings (rendered (run shrinkingDeltas n waveRequested))) = 1 / 2"
proof (induction n)
  case 0
  show ?case by (simp add: waveRequested_def firstRender_def mount_def defaultProps_def
        render_def effectChange_def Let_def)
next
  case (Suc n)
  define s where "s = run shrinkingDeltas n waveRequested"
  have s: "effectTransitionStageRef s = fadeOut" "effectTransitionRef s = 1 - 1 / 2 ^ n"
    "transitionSpeed (particleSettings (rendered s)) = 1 / 2"
    using Suc by (simp_all add: s_def)
  have f: "run shrinkingDeltas (Suc n) waveRequested
      = useFrame (1 / 2 ^ Suc n) (1 - 1 / 2 ^ Suc n) (\<lambda>c. (0, 0, 0)) s"
    by (simp add: frame_def shrinkingDeltas_def s_def)
  have np: "nextProgress (1 / 2 ^ Suc n) s = 1 - 1 / 2 ^ Suc n"
    by (simp add: nextProgress_def s field_simps)
  have lt: "nextProgress (1 / 2 ^ Suc n) s < stageThreshold fadeOut"
    unfolding np by simp
  have ne: "fadeOut \<noteq> idle" by simp
  show ?case
    using useFrame_step(2) [OF s(1) ne lt] s(3)
    unfolding f np by (simp add: useFrame_rendered)
qed

lemma shrinking_deltas_never_finish:
  "(\<forall>i. 0 < delta (shrinkingDeltas i) \<and> renders (shrinkingDeltas i) = [])
   \<and> 0 < transitionSpeed (particleSettings (rendered waveRequested))
   \<and> (\<forall>n. effectTransitionStageRef (run shrinkingDeltas n waveRequested) = fadeOut)"
  using shrinkingDeltas_progress
  by (simp add: shrinkingDeltas_def waveRequested_def render_rendered defaultProps_def del: run.simps)

text \<open>
  C4, as stated, fails.  In the scenario the spiral effect is requested during the fadeOut
  of the transition to wave.  The transition to wave completes after five frames, and the
  machine then stays idle: no transition to spiral is run.  The refs hold wave as target
  and previous effect, while the idle frames write the index of spiral and the full
  intensity into the uniforms.
\<close>

theorem deferred_request_counterexample:
  "effectTransitionStageRef (run requestDuringFlight 0 waveRequested) = fadeOut
   \<and> effectTransitionStageRef (run requestDuringFlight 1 waveRequested) = fadeOut
   \<and> currentEffect (rendered (run requestDuringFlight 2 waveRequested)) = fx_spiral
   \<and> effectTransitionStageRef (run requestDuringFlight 2 waveRequested) = showNone
   \<and> effectTransitionStageRef (run requestDuringFlight 3 waveRequested) = fadeIn
   \<and> effectTransitionStageRef (run requestDuringFlight 4 waveRequested) = fadeIn
   \<and> uEffect (material (run requestDuringFlight 4 waveRequested)) = effectToIndex fx_wave
   \<and> effectTransitionStageRef (run requestDuringFlight 5 waveRequested) = idle
   \<and> effectTransitionStageRef (run requestDuringFlight 6 waveRequested) = idle
   \<and> effectTransitionStageRef (run requestDuringFlight 7 waveRequested) = idle
   \<and> effectTransitionStageRef (run requestDuringFlight 8 waveRequested) = idle
   \<and> effectTransitionStageRef (run requestDuringFlight 9 waveRequested) = idle
   \<and> effectTransitionStageRef (run requestDuringFlight 10 waveRequested) = idle
   \<and> targetEffectRef (run requestDuringFlight 10 waveRequested) = fx_wave
   \<and> previousEffectRef (run requestDuringFlight 10 waveRequested) = fx_wave
   \<and> currentEffect (rendered (run requestDuringFlight 10 waveRequested)) = fx_spiral
   \<and> uEffect (material (run requestDuringFlight 6 waveRequested)) = effectToIndex fx_spiral
   \<and> uEffectIntensity (material (run requestDuringFlight 6 waveRequested)) = 1 / 2"
  by (simp add: run_defs)

lemma render_same_effect:
  assumes "currentEffect p = currentEffect (rendered s)"
    and "effectIntensity p = effectIntensity (rendered s)"
  shows "render s p = s\<lparr> rendered := p \<rparr>"
  using assms by (simp add: render_def)

lemma renders_same_effect:
  assumes "\<forall>q \<in> set ps. currentEffect q = currentEffect (rendered s)
                        \<and> effectIntensity q = effectIntensity (rendered s)"
  shows "effectTransitionStageRef (foldl render s ps) = effectTransitionStageRef s
       \<and> effectTransitionRef (foldl render s ps) = effectTransitionRef s
       \<and> previousEffectRef (foldl render s ps) = previousEffectRef s
       \<and> targetEffectRef (foldl render s ps) = targetEffectRef s
       \<and> currentEffect (rendered (foldl render s ps)) = currentEffect (rendered s)
       \<and> effectIntensity (rendered (foldl render s ps)) = effectIntensity (rendered s)"
  using assms
proof (induction ps arbitrary: s)
  case Nil
  then show ?case by simp
next
  case (Cons p ps)
  have p: "currentEffect p = currentEffect (rendered s)"
    "effectIntensity p = effectIntensity (rendered s)"
    using Cons.prems by simp_all
  have r: "render s p = s\<lparr> rendered := p \<rparr>"
    using render_same_effect [OF p] .
  have "\<forall>q \<in> set ps. currentEffect q = currentEffect (rendered (render s p))
                        \<and> effectIntensity q = effectIntensity (rendered (render s p))"
    using Cons.prems p by (simp add: render_rendered)
  from Cons.IH [OF this] show ?case
    using p by (simp add: r)
qed

lemma idle_until_effect_changes:
  assumes "effectTransitionStageRef s = idle"
    and "\<forall>i. \<forall>q \<in> set (renders (inp i)). currentEffect q = currentEffect (rendered s)
                        \<and> effectIntensity q = effectIntensity (rendered s)"
  shows "effectTransitionStageRef (run inp n s) = idle
       \<and> previousEffectRef (run inp n s) = previousEffectRef s
       \<and> targetEffectRef (run inp n s) = targetEffectRef s
       \<and> currentEffect (rendered (run inp n s)) = currentEffect (rendered s)
       \<and> effectIntensity (rendered (run inp n s)) = effectIntensity (rendered s)"
proof (induction n)
  case 0
  then show ?case using assms(1) by simp
next
  case (Suc n)
  define a where "a = run inp n s"
  define r where "r = foldl render a (renders (inp n))"
  have a: "effectTransitionStageRef a = idle" "previousEffectRef a = previousEffectRef s"
    "targetEffectRef a = targetEffectRef s"
    "currentEffect (rendered a) = currentEffect (rendered s)"
    "effectIntensity (rendered a) = effectIntensity (rendered s)"
    using Suc by (simp_all add: a_def)
  have "\<forall>q \<in> set (renders (inp n)). currentEffect q = currentEffect (rendered a)
                        \<and> effectIntensity q = effectIntensity (rendered a)"
    using assms(2) a(4,5) by simp
  from renders_same_effect [OF this]
  have r: "effectTransitionStageRef r = idle" "previousEffectRef r = previousEffectRef s"
    "targetEffectRef r = targetEffectRef s"
    "currentEffect (rendered r) = currentEffect (rendered s)"
    "effectIntensity (rendered r) = effectIntensity (rendered s)"
    using a by (simp_all add: r_def)
  have f: "run inp (Suc n) s = useFrame (delta (inp n)) (elapsedTime (inp n)) (posTexture (inp n)) r"
    by (simp add: frame_def r_def a_def)
  show ?case
    unfolding f using useFrame_idle(1,3,4) [OF r(1)] r
    by (simp add: useFrame_rendered)
qed

lemma idle_shows_selected_effect:
  assumes "effectTransitionStageRef s = idle"
    and "\<forall>i. \<forall>q \<in> set (renders (inp i)). currentEffect q = currentEffect (rendered s)
                        \<and> effectIntensity q = effectIntensity (rendered s)"
  shows "uEffect (material (run inp (Suc n) s)) = effectToIndex (currentEffect (rendered s))"
    and "uEffectIntensity (material (run inp (Suc n) s)) = effectIntensity (rendered s)"
proof -
  define a where "a = run inp n s"
  define r where "r = foldl render a (renders (inp n))"
  have a: "effectTransitionStageRef a = idle"
    "currentEffect (rendered a) = currentEffect (rendered s)"
    "effectIntensity (rendered a) = effectIntensity (rendered s)"
    using idle_until_effect_changes [OF assms, of n] by (simp_all add: a_def)
  have "\<forall>q \<in> set (renders (inp n)). currentEffect q = currentEffect (rendered a)
                        \<and> effectIntensity q = effectIntensity (rendered a)"
    using assms(2) a(2,3) by simp
  from renders_same_effect [OF this]
  have r: "effectTransitionStageRef r = idle"
    "currentEffect (rendered r) = currentEffect (rendered s)"
    "effectIntensity (rendered r) = effectIntensity (rendered s)"
    using a by (simp_all add: r_def)
  have f: "run inp (Suc n) s = useFrame (delta (inp n)) (elapsedTime (inp n)) (posTexture (inp n)) r"
    by (simp add: frame_def r_def a_def)
  show "uEffect (material (run inp (Suc n) s)) = effectToIndex (currentEffect (rendered s))"
    and "uEffectIntensity (material (run inp (Suc n) s)) = effectIntensity (rendered s)"
    unfolding f using useFrame_idle(5,6) [OF r(1)] r by simp_all
qed

lemma stage_done:
  assumes pos: "0 < dmin" "0 < smin"
    and st: "effectTransitionStageRef s = X" "X \<noteq> idle"
    and sp: "smin \<le> transitionSpeed (particleSettings (rendered s))"
    and pc: "paced dmin smin inp"
  shows "\<exists>n. 0 < n
           \<and> (\<forall>j<n. effectTransitionStageRef (run inp j s) = X)
           \<and> effectTransitionStageRef (run inp n s) = nextStage X
           \<and> targetEffectRef (run inp n s) = targetEffectRef s
           \<and> smin \<le> transitionSpeed (particleSettings (rendered (run inp n s)))
           \<and> (X \<noteq> fadeIn \<longrightarrow> effectTransitionRef (run inp n s) = 0)
           \<and> (X = fadeIn \<longrightarrow> previousEffectRef (run inp n s) = targetEffectRef s)"
proof -
  define c where "c = dmin * smin * 2"
  have c: "0 < c" using pos by (simp add: c_def)
  obtain k where k: "stageThreshold X - effectTransitionRef s < real k * c"
    using ex_less_of_nat_mult [OF c, of "stageThreshold X - effectTransitionRef s"] by auto
  have "stageThreshold X \<le> effectTransitionRef s + real (Suc k) * c"
    using k c by (simp add: algebra_simps)
  then have th: "stageThreshold X \<le> effectTransitionRef s + real (Suc k) * (dmin * smin * 2)"
    by (simp only: c_def)
  show ?thesis
    by (rule stage_completes [OF pos st sp pc th])
qed

lemma completes_glue:
  assumes n: "0 < n" "\<forall>j<n. effectTransitionStageRef (run inp j s) \<noteq> idle"
    and m: "\<exists>m. 0 < m
          \<and> (\<forall>j<m. effectTransitionStageRef (run (\<lambda>i. inp (n + i)) j (run inp n s)) \<noteq> idle)
          \<and> effectTransitionStageRef (run (\<lambda>i. inp (n + i)) m (run inp n s)) = idle
          \<and> previousEffectRef (run (\<lambda>i. inp (n + i)) m (run inp n s)) = T
          \<and> targetEffectRef (run (\<lambda>i. inp (n + i)) m (run inp n s)) = T"
  shows "\<exists>m. 0 < m
          \<and> (\<forall>j<m. effectTransitionStageRef (run inp j s) \<noteq> idle)
          \<and> effectTransitionStageRef (run inp m s) = idle
          \<and> previousEffectRef (run inp m s) = T
          \<and> targetEffectRef (run inp m s) = T"
proof -
  obtain m where m: "0 < m"
    "\<forall>j<m. effectTransitionStageRef (run (\<lambda>i. inp (n + i)) j (run inp n s)) \<noteq> idle"
    "effectTransitionStageRef (run (\<lambda>i. inp (n + i)) m (run inp n s)) = idle"
    "previousEffectRef (run (\<lambda>i. inp (n + i)) m (run inp n s)) = T"
    "targetEffectRef (run (\<lambda>i. inp (n + i)) m (run inp n s)) = T"
    using m by (elim exE conjE)
  have sh: "run inp (n + j) s = run (\<lambda>i. inp (n + i)) j (run inp n s)" for j
    by (rule run_add)
  have before: "effectTransitionStageRef (run inp j s) \<noteq> idle" if "j < n + m" for j
  proof (cases "j < n")
    case True
    then show ?thesis using n(2) by blast
  next
    case False
    define j' where "j' = j - n"
    have j': "j = n + j'" "j' < m"
      using that False by (simp_all add: j'_def)
    have "effectTransitionStageRef (run (\<lambda>i. inp (n + i)) j' (run inp n s)) \<noteq> idle"
      using m(2) j'(2) by blast
    then show ?thesis by (simp only: j'(1) sh not_False_eq_True)
  qed
  show ?thesis
    apply (rule exI [of _ "n + m"])
    using before m(1,3,4,5) unfolding sh by simp
qed

lemma fadeIn_completes:
  assumes pos: "0 < dmin" "0 < smin"
    and st: "effectTransitionStageRef s = fadeIn"
    and sp: "smin \<le> transitionSpeed (particleSettings (rendered s))"
    and pc: "paced dmin smin inp"
  shows "\<exists>m. 0 < m
          \<and> (\<forall>j<m. effectTransitionStageRef (run inp j s) \<noteq> idle)
          \<and> effectTransitionStageRef (run inp m s) = idle
          \<and> previousEffectRef (run inp m s) = targetEffectRef s
          \<and> targetEffectRef (run inp m s) = targetEffectRef s"
proof -
  have ne: "fadeIn \<noteq> idle" by simp
  obtain n where n: "0 < n" "\<forall>j<n. effectTransitionStageRef (run inp j s) = fadeIn"
    "effectTransitionStageRef (run inp n s) = idle"
    "targetEffectRef (run inp n s) = targetEffectRef s"
    "previousEffectRef (run inp n s) = targetEffectRef s"
    using stage_done [OF pos st ne sp pc] by (elim exE conjE) simp
  show ?thesis
    apply (rule exI [of _ n])
    using n by simp
qed

lemma showNone_completes:
  assumes pos: "0 < dmin" "0 < smin"
    and st: "effectTransitionStageRef s = showNone"
    and sp: "smin \<le> transitionSpeed (particleSettings (rendered s))"
    and pc: "paced dmin smin inp"
  shows "\<exists>m. 0 < m
          \<and> (\<forall>j<m. effectTransitionStageRef (run inp j s) \<noteq> idle)
          \<and> effectTransitionStageRef (run inp m s) = idle
          \<and> previousEffectRef (run inp m s) = targetEffectRef s
          \<and> targetEffectRef (run inp m s) = targetEffectRef s"
proof -
  have ne: "showNone \<noteq> idle" by simp
  obtain n where n: "0 < n" "\<forall>j<n. effectTransitionStageRef (run inp j s) = showNone"
    "effectTransitionStageRef (run inp n s) = fadeIn"
    "targetEffectRef (run inp n s) = targetEffectRef s"
    "smin \<le> transitionSpeed (particleSettings (rendered (run inp n s)))"
    using stage_done [OF pos st ne sp pc] by (elim exE conjE) simp
  have b: "\<forall>j<n. effectTransitionStageRef (run inp j s) \<noteq> idle"
    using n(2) by simp
  have pc': "paced dmin smin (\<lambda>i. inp (n + i))"
    using paced_shift [OF pc] .
  show ?thesis
    using completes_glue [OF n(1) b, of "targetEffectRef s"]
      fadeIn_completes [OF pos n(3) n(5) pc']
    unfolding n(4) by blast
qed

lemma fadeOut_completes:
  assumes pos: "0 < dmin" "0 < smin"
    and st: "effectTransitionStageRef s = fadeOut"
    and sp: "smin \<le> transitionSpeed (particleSettings (rendered s))"
    and pc: "paced dmin smin inp"
  shows "\<exists>m. 0 < m
          \<and> (\<forall>j<m. effectTransitionStageRef (run inp j s) \<noteq> idle)
          \<and> effectTransitionStageRef (run inp m s) = idle
          \<and> previousEffectRef (run inp m s) = targetEffectRef s
          \<and> targetEffectRef (run inp m s) = targetEffectRef s"
proof -
  have ne: "fadeOut \<noteq> idle" by simp
  obtain n where n: "0 < n" "\<forall>j<n. effectTransitionStageRef (run inp j s) = fadeOut"
    "effectTransitionStageRef (run inp n s) = showNone"
    "targetEffectRef (run inp n s) = targetEffectRef s"
    "smin \<le> transitionSpeed (particleSettings (rendered (run inp n s)))"
    using stage_done [OF pos st ne sp pc] by (elim exE conjE) simp
  have b: "\<forall>j<n. effectTransitionStageRef (run inp j s) \<noteq> idle"
    using n(2) by simp
  have pc': "paced dmin smin (\<lambda>i. inp (n + i))"
    using paced_shift [OF pc] .
  show ?thesis
    using completes_glue [OF n(1) b, of "targetEffectRef s"]
      showNone_completes [OF pos n(3) n(5) pc']
    unfolding n(4) by blast
qed

lemma transition_completes:
  assumes pos: "0 < dmin" "0 < smin"
    and st: "effectTransitionStageRef s \<noteq> idle"
    and sp: "smin \<le> transitionSpeed (particleSettings (rendered s))"
    and pc: "paced dmin smin inp"
  shows "\<exists>m. 0 < m
          \<and> (\<forall>j<m. effectTransitionStageRef (run inp j s) \<noteq> idle)
          \<and> effectTransitionStageRef (run inp m s) = idle
          \<and> previousEffectRef (run inp m s) = targetEffectRef s
          \<and> targetEffectRef (run inp m s) = targetEffectRef s"
proof (cases "effectTransitionStageRef s")
  case idle
  then show ?thesis using st by simp
next
  case fadeOut
  then show ?thesis by (rule fadeOut_completes [OF pos _ sp pc])
next
  case showNone
  then show ?thesis by (rule showNone_completes [OF pos _ sp pc])
next
  case fadeIn
  then show ?thesis by (rule fadeIn_completes [OF pos _ sp pc])
qed

lemma in_flight_target:
  "\<forall>j<n. effectTransitionStageRef (run inp j s) \<noteq> idle
     \<Longrightarrow> targetEffectRef (run inp n s) = targetEffectRef s"
proof (induction n)
  case 0
  then show ?case by simp
next
  case (Suc n)
  define a where "a = run inp n s"
  have a: "effectTransitionStageRef a \<noteq> idle" "targetEffectRef a = targetEffectRef s"
    using Suc by (simp_all add: a_def)
  define r where "r = foldl render a (renders (inp n))"
  have r: "effectTransitionStageRef r = effectTransitionStageRef a"
    "targetEffectRef r = targetEffectRef a"
    using renders_in_flight [OF a(1), of "renders (inp n)"] by (simp_all add: r_def)
  have ne: "effectTransitionStageRef r \<noteq> idle" using r(1) a(1) by simp
  have "targetEffectRef (useFrame (delta (inp n)) (elapsedTime (inp n)) (posTexture (inp n)) r)
      = targetEffectRef r"
    using useFrame_step(1) [OF refl ne] .
  then show ?case
    by (simp add: frame_def a_def [symmetric] r_def [symmetric] r a)
qed

text \<open>
  C4, amended.  A render that arrives while the machine is not idle changes nothing of the
  machine but the values the callbacks close over: stage, progress, previous and target
  effect stay.  The transition in flight then runs to its end: for every stream of frames
  whose deltas and transition speeds stay above positive bounds, whatever renders arrive,
  the machine is idle after some \<open>n > 0\<close> frames and not before, the target effect is
  throughout the one the machine held when the request arrived, and at the end it is the
  previous effect as well.  From an idle state, as long as no render changes the selected
  effect or the effect intensity (other store values may change with every frame), the
  machine stays idle with its previous and target effect, and every frame writes the index
  of the selected effect and the full effect intensity into the uniforms.
\<close>

theorem request_in_flight_not_replayed:
  "(effectTransitionStageRef s \<noteq> idle \<longrightarrow>
        effectTransitionStageRef (render s p) = effectTransitionStageRef s
      \<and> effectTransitionRef (render s p) = effectTransitionRef s
      \<and> previousEffectRef (render s p) = previousEffectRef s
      \<and> targetEffectRef (render s p) = targetEffectRef s
      \<and> rendered (render s p) = p)
   \<and> (effectTransitionStageRef s \<noteq> idle \<and> 0 < dmin \<and> 0 < smin
        \<and> smin \<le> transitionSpeed (particleSettings p) \<and> paced dmin smin inp \<longrightarrow>
        (\<exists>n. 0 < n
           \<and> (\<forall>j<n. effectTransitionStageRef (run inp j (render s p)) \<noteq> idle
                   \<and> targetEffectRef (run inp j (render s p)) = targetEffectRef s)
           \<and> effectTransitionStageRef (run inp n (render s p)) = idle
           \<and> previousEffectRef (run inp n (render s p)) = targetEffectRef s
           \<and> targetEffectRef (run inp n (render s p)) = targetEffectRef s))
   \<and> (effectTransitionStageRef s' = idle
        \<and> (\<forall>i. \<forall>q \<in> set (renders (inp' i)).
               currentEffect q = currentEffect (rendered s')
             \<and> effectIntensity q = effectIntensity (rendered s')) \<longrightarrow>
        (\<forall>n. effectTransitionStageRef (run inp' n s') = idle
           \<and> previousEffectRef (run inp' n s') = previousEffectRef s'
           \<and> targetEffectRef (run inp' n s') = targetEffectRef s'
           \<and> uEffect (material (run inp' (Suc n) s')) = effectToIndex (currentEffect (rendered s'))
           \<and> uEffectIntensity (material (run inp' (Suc n) s')) = effectIntensity (rendered s')))"
proof (intro conjI impI allI)
  assume "effectTransitionStageRef s \<noteq> idle"
  from render_in_flight [OF this, of p]
  show "effectTransitionStageRef (render s p) = effectTransitionStageRef s"
    and "effectTransitionRef (render s p) = effectTransitionRef s"
    and "previousEffectRef (render s p) = previousEffectRef s"
    and "targetEffectRef (render s p) = targetEffectRef s"
    by simp_all
next
  show "rendered (render s p) = p" by (rule render_rendered)
next
  assume h: "effectTransitionStageRef s \<noteq> idle \<and> 0 < dmin \<and> 0 < smin
        \<and> smin \<le> transitionSpeed (particleSettings p) \<and> paced dmin smin inp"
  define r where "r = render s p"
  have r: "effectTransitionStageRef r \<noteq> idle" "targetEffectRef r = targetEffectRef s"
    "smin \<le> transitionSpeed (particleSettings (rendered r))"
    using h render_in_flight [of s p] by (simp_all add: r_def render_rendered)
  have pos: "0 < dmin" "0 < smin" and pc: "paced dmin smin inp"
    using h by simp_all
  obtain n where n: "0 < n" "\<forall>j<n. effectTransitionStageRef (run inp j r) \<noteq> idle"
    "effectTransitionStageRef (run inp n r) = idle"
    "previousEffectRef (run inp n r) = targetEffectRef r"
    "targetEffectRef (run inp n r) = targetEffectRef r"
    using transition_completes [OF pos r(1) r(3) pc] by (elim exE conjE)
  have tg: "targetEffectRef (run inp j r) = targetEffectRef s" if "j < n" for j
  proof -
    have "\<forall>i<j. effectTransitionStageRef (run inp i r) \<noteq> idle"
      using n(2) that by simp
    from in_flight_target [OF this] show ?thesis by (simp only: r(2))
  qed
  show "\<exists>n. 0 < n
           \<and> (\<forall>j<n. effectTransitionStageRef (run inp j (render s p)) \<noteq> idle
                   \<and> targetEffectRef (run inp j (render s p)) = targetEffectRef s)
           \<and> effectTransitionStageRef (run inp n (render s p)) = idle
           \<and> previousEffectRef (run inp n (render s p)) = targetEffectRef s
           \<and> targetEffectRef (run inp n (render s p)) = targetEffectRef s"
    unfolding r_def [symmetric]
    apply (rule exI [of _ n])
    using n tg unfolding r(2) by simp
next
  fix n
  assume h: "effectTransitionStageRef s' = idle
        \<and> (\<forall>i. \<forall>q \<in> set (renders (inp' i)).
               currentEffect q = currentEffect (rendered s')
             \<and> effectIntensity q = effectIntensity (rendered s'))"
  then have i: "effectTransitionStageRef s' = idle"
    and q: "\<forall>i. \<forall>q \<in> set (renders (inp' i)).
               currentEffect q = currentEffect (rendered s')
             \<and> effectIntensity q = effectIntensity (rendered s')"
    by blast+
  show "effectTransitionStageRef (run inp' n s') = idle"
    and "previousEffectRef (run inp' n s') = previousEffectRef s'"
    and "targetEffectRef (run inp' n s') = targetEffectRef s'"
    using idle_until_effect_changes [OF i q, of n] by simp_all
  show "uEffect (material (run inp' (Suc n) s')) = effectToIndex (currentEffect (rendered s'))"
    by (rule idle_shows_selected_effect(1) [OF i q])
  show "uEffectIntensity (material (run inp' (Suc n) s')) = effectIntensity (rendered s')"
    by (rule idle_shows_selected_effect(2) [OF i q])
qed

theorem request_in_flight_not_replayed_witness:
  "effectTransitionStageRef waveRequested \<noteq> idle
   \<and> effectTransitionStageRef (render waveRequested (defaultProps\<lparr> currentEffect := fx_spiral \<rparr>))
       = fadeOut
   \<and> targetEffectRef (render waveRequested (defaultProps\<lparr> currentEffect := fx_spiral \<rparr>))
       = fx_wave
   \<and> (0::real) < 1 / 2
   \<and> 1 / 2 \<le> transitionSpeed (particleSettings (defaultProps\<lparr> currentEffect := fx_spiral \<rparr>))
   \<and> paced (1 / 2) (1 / 2) requestDuringFlight
   \<and> (\<exists>n. 0 < n
        \<and> (\<forall>j<n. effectTransitionStageRef
                    (run requestDuringFlight j
                       (render waveRequested (defaultProps\<lparr> currentEffect := fx_spiral \<rparr>))) \<noteq> idle
                \<and> targetEffectRef
                    (run requestDuringFlight j
                       (render waveRequested (defaultProps\<lparr> currentEffect := fx_spiral \<rparr>))) = fx_wave)
        \<and> effectTransitionStageRef
             (run requestDuringFlight n
                (render waveRequested (defaultProps\<lparr> currentEffect := fx_spiral \<rparr>))) = idle
        \<and> previousEffectRef
             (run requestDuringFlight n
                (render waveRequested (defaultProps\<lparr> currentEffect := fx_spiral \<rparr>))) = fx_wave)
   \<and> effectTransitionStageRef (run requestDuringFlight 5 waveRequested) = idle
   \<and> (\<forall>i. renders (audioUpdates i) = [spiralWithAudio])
   \<and> currentEffect spiralWithAudio
       = currentEffect (rendered (run requestDuringFlight 5 waveRequested))
   \<and> effectIntensity spiralWithAudio
       = effectIntensity (rendered (run requestDuringFlight 5 waveRequested))
   \<and> audioData spiralWithAudio \<noteq> audioData (rendered (run requestDuringFlight 5 waveRequested))
   \<and> (\<forall>n. effectTransitionStageRef
            (run audioUpdates n (run requestDuringFlight 5 waveRequested)) = idle
        \<and> targetEffectRef
            (run audioUpdates n (run requestDuringFlight 5 waveRequested)) = fx_wave
        \<and> uEffect (material
            (run audioUpdates (Suc n) (run requestDuringFlight 5 waveRequested)))
          = effectToIndex fx_spiral)"
proof -
  define sp where "sp = defaultProps\<lparr> currentEffect := fx_spiral \<rparr>"
  define s' where "s' = run requestDuringFlight 5 waveRequested"
  have a: "effectTransitionStageRef waveRequested \<noteq> idle"
    "effectTransitionStageRef waveRequested = fadeOut"
    "targetEffectRef waveRequested = fx_wave"
    by (simp_all add: run_defs)
  have q: "(0::real) < 1 / 2" "1 / 2 \<le> transitionSpeed (particleSettings sp)"
    by (simp_all add: sp_def defaultProps_def)
  have p: "paced (1 / 2) (1 / 2) requestDuringFlight"
    by (simp add: paced_def requestDuringFlight_def defaultProps_def)
  have b: "effectTransitionStageRef s' = idle" "targetEffectRef s' = fx_wave"
    "currentEffect (rendered s') = fx_spiral" "effectIntensity (rendered s') = 1 / 2"
    "audioData (rendered s') = None"
    unfolding s'_def by (simp_all add: run_defs)
  have c: "\<forall>i. renders (audioUpdates i) = [spiralWithAudio]"
    "currentEffect spiralWithAudio = fx_spiral" "effectIntensity spiralWithAudio = 1 / 2"
    "audioData spiralWithAudio \<noteq> None"
    by (simp_all add: audioUpdates_def spiralWithAudio_def defaultProps_def)
  have c': "\<forall>i. \<forall>q \<in> set (renders (audioUpdates i)).
               currentEffect q = currentEffect (rendered s')
             \<and> effectIntensity q = effectIntensity (rendered s')"
    using c b by simp
  note t = request_in_flight_not_replayed
      [of waveRequested sp "1 / 2" "1 / 2" requestDuringFlight s' audioUpdates]
  have t1: "effectTransitionStageRef (render waveRequested sp) = fadeOut"
    "targetEffectRef (render waveRequested sp) = fx_wave"
    using t a by simp_all
  have t2: "\<exists>n. 0 < n
           \<and> (\<forall>j<n. effectTransitionStageRef (run requestDuringFlight j (render waveRequested sp)) \<noteq> idle
                   \<and> targetEffectRef (run requestDuringFlight j (render waveRequested sp)) = fx_wave)
           \<and> effectTransitionStageRef (run requestDuringFlight n (render waveRequested sp)) = idle
           \<and> previousEffectRef (run requestDuringFlight n (render waveRequested sp)) = fx_wave"
    using t a(1) q p unfolding a(3) by blast
  have t3: "\<forall>n. effectTransitionStageRef (run audioUpdates n s') = idle
        \<and> targetEffectRef (run audioUpdates n s') = fx_wave
        \<and> uEffect (material (run audioUpdates (Suc n) s')) = effectToIndex fx_spiral"
    using t b(1) c' unfolding b(2,3) by blast
  show ?thesis
    unfolding sp_def [symmetric] s'_def [symmetric]
    using a(1) t1 q p t2 b(1) c(1) t3
    by (simp add: c b del: run.simps)
qed

section \<open>Hand positions and the GPGPU flag over a frame\<close>

lemma frameEffect_refs:
  "smoothLeftHandRef (frameEffect d s) = smoothLeftHandRef s"
  "smoothRightHandRef (frameEffect d s) = smoothRightHandRef s"
  "gpuComputeRef (frameEffect d s) = gpuComputeRef s"
  "posVarRef (frameEffect d s) = posVarRef s"
  "velVarRef (frameEffect d s) = velVarRef s"
  "gpuEnabledRef (frameEffect d s) = gpuEnabledRef s"
  by (cases "effectTransitionStageRef s"; simp add: frameEffect_def Let_def)+

lemma frameHands_refs:
  "gpuComputeRef (frameHands d s) = gpuComputeRef s"
  "posVarRef (frameHands d s) = posVarRef s"
  "velVarRef (frameHands d s) = velVarRef s"
  "gpuEnabledRef (frameHands d s) = gpuEnabledRef s"
  by (simp_all add: frameHands_def Let_def)

lemma frameHands_smooth:
  assumes "\<not> enabled (handSettings (rendered s))"
  shows "smoothLeftHandRef (frameHands d s)
      = lerp (smoothLeftHandRef s) (0, 0, 0)
          (min (d * gestureTransitionSpeed (handSettings (rendered s)) * 5) 1)"
    and "smoothRightHandRef (frameHands d s)
      = lerp (smoothRightHandRef s) (0, 0, 0)
          (min (d * gestureTransitionSpeed (handSettings (rendered s)) * 5) 1)"
  using assms by (simp_all add: frameHands_def Let_def split: option.split)

lemma frameSmoothing_refs:
  "smoothLeftHandRef (frameSmoothing d s) = smoothLeftHandRef s"
  "smoothRightHandRef (frameSmoothing d s) = smoothRightHandRef s"
  "gpuComputeRef (frameSmoothing d s) = gpuComputeRef s"
  "posVarRef (frameSmoothing d s) = posVarRef s"
  "velVarRef (frameSmoothing d s) = velVarRef s"
  "gpuEnabledRef (frameSmoothing d s) = gpuEnabledRef s"
  by (simp_all add: frameSmoothing_def Let_def)

lemma frameFloat_refs:
  "smoothLeftHandRef (frameFloat t s) = smoothLeftHandRef s"
  "smoothRightHandRef (frameFloat t s) = smoothRightHandRef s"
  "gpuComputeRef (frameFloat t s) = gpuComputeRef s"
  "posVarRef (frameFloat t s) = posVarRef s"
  "velVarRef (frameFloat t s) = velVarRef s"
  "gpuEnabledRef (frameFloat t s) = gpuEnabledRef s"
  by (simp_all add: frameFloat_def Let_def)

lemma frameGPGPU_refs:
  "smoothLeftHandRef (frameGPGPU d t tex s) = smoothLeftHandRef s"
  "smoothRightHandRef (frameGPGPU d t tex s) = smoothRightHandRef s"
  "gpuComputeRef (frameGPGPU d t tex s) = gpuComputeRef s"
  "gpuEnabledRef (frameGPGPU d t tex s) = gpuEnabledRef s"
  by (simp_all add: frameGPGPU_def Let_def split: option.split)


lemma frameGPGPU_on:
  assumes "gpuComputeRef s" "posVarRef s \<noteq> None" "gpuEnabledRef s" "velVarRef s = Some vu"
  shows "map_option uLeftHand (velVarRef (frameGPGPU d t tex s)) = Some (smoothLeftHandRef s)"
    and "map_option uRightHand (velVarRef (frameGPGPU d t tex s)) = Some (smoothRightHandRef s)"
  using assms by (simp_all add: frameGPGPU_def Let_def)

lemma frameAudio_refs:
  "smoothLeftHandRef (frameAudio s) = smoothLeftHandRef s"
  "smoothRightHandRef (frameAudio s) = smoothRightHandRef s"
  "gpuComputeRef (frameAudio s) = gpuComputeRef s"
  "posVarRef (frameAudio s) = posVarRef s"
  "velVarRef (frameAudio s) = velVarRef s"
  "gpuEnabledRef (frameAudio s) = gpuEnabledRef s"
  "uUseGPGPU (material (frameAudio s)) = uUseGPGPU (material s)"
  by (simp_all add: frameAudio_def Let_def)

lemma updateUniforms_refs:
  "smoothLeftHandRef (updateUniforms s) = smoothLeftHandRef s"
  "smoothRightHandRef (updateUniforms s) = smoothRightHandRef s"
  "gpuComputeRef (updateUniforms s) = gpuComputeRef s"
  "posVarRef (updateUniforms s) = posVarRef s"
  "velVarRef (updateUniforms s) = velVarRef s"
  "gpuEnabledRef (updateUniforms s) = gpuEnabledRef s"
  "uUseGPGPU (material (updateUniforms s)) = uUseGPGPU (material s)"
  by (simp_all add: updateUniforms_def Let_def)

lemma updateUniforms_hands:
  assumes "\<not> enabled (handSettings (rendered s))"
  shows "uLeftHand (material (updateUniforms s)) = (0, 0, 0)"
    and "uRightHand (material (updateUniforms s)) = (0, 0, 0)"
  using assms by (simp_all add: updateUniforms_def Let_def split: option.split)

lemma render_refs:
  "smoothLeftHandRef (render s p) = smoothLeftHandRef s"
  "smoothRightHandRef (render s p) = smoothRightHandRef s"
  "gpuComputeRef (render s p) = gpuComputeRef s"
  "posVarRef (render s p) = posVarRef s"
  "velVarRef (render s p) = velVarRef s"
  "gpuEnabledRef (render s p) = gpuEnabledRef s"
  by (simp_all add: render_def effectChange_def Let_def)

lemma lerp_to_zero: "lerp v (0, 0, 0) f = smul v (1 - f)"
  by (cases v) (simp add: lerp_def algebra_simps)

lemma useFrame_split:
  "useFrame d t tex s = updateUniforms (frameAudio (frameGPGPU d t tex (beforeGPGPU d t s)))"
  by (simp add: useFrame_def beforeGPGPU_def)

lemma beforeGPGPU_refs:
  "gpuComputeRef (beforeGPGPU d t s) = gpuComputeRef s"
  "posVarRef (beforeGPGPU d t s) = posVarRef s"
  "velVarRef (beforeGPGPU d t s) = velVarRef s"
  "gpuEnabledRef (beforeGPGPU d t s) = gpuEnabledRef s"
  "rendered (beforeGPGPU d t s) = rendered s"
  by (simp_all add: beforeGPGPU_def frameFloat_refs frameSmoothing_refs frameEffect_refs
      frameHands_refs frameFloat_fields frameSmoothing_fields frameEffect_rendered
      frameHands_fields)

lemma beforeGPGPU_smooth:
  assumes "\<not> enabled (handSettings (rendered s))"
  shows "smoothLeftHandRef (beforeGPGPU d t s)
      = smul (smoothLeftHandRef s)
          (1 - min (d * gestureTransitionSpeed (handSettings (rendered s)) * 5) 1)"
    and "smoothRightHandRef (beforeGPGPU d t s)
      = smul (smoothRightHandRef s)
          (1 - min (d * gestureTransitionSpeed (handSettings (rendered s)) * 5) 1)"
proof -
  have e: "\<not> enabled (handSettings (rendered (s\<lparr> material := (material s)\<lparr> uTime := t \<rparr> \<rparr>)))"
    using assms by simp
  show "smoothLeftHandRef (beforeGPGPU d t s)
      = smul (smoothLeftHandRef s)
          (1 - min (d * gestureTransitionSpeed (handSettings (rendered s)) * 5) 1)"
    and "smoothRightHandRef (beforeGPGPU d t s)
      = smul (smoothRightHandRef s)
          (1 - min (d * gestureTransitionSpeed (handSettings (rendered s)) * 5) 1)"
    using frameHands_smooth [OF e, of d]
    by (simp_all add: beforeGPGPU_def frameFloat_refs frameSmoothing_refs frameEffect_refs
        lerp_to_zero)
qed



text \<open>
  C7, amended.  On the frame after a render with hand tracking disabled, the hand uniforms
  of the material are \<open>(0, 0, 0)\<close>.  The smoothed hand positions are scaled by
  \<open>1 - min (delta * gestureTransitionSpeed * 5) 1\<close>, and where the GPGPU pass runs, the
  velocity shader's hand uniforms are these smoothed positions.
\<close>

theorem hand_disable_frame:
  assumes "\<not> enabled (handSettings p)"
  shows "uLeftHand (material (useFrame d t tex (render s p))) = (0, 0, 0)
     \<and> uRightHand (material (useFrame d t tex (render s p))) = (0, 0, 0)
     \<and> smoothLeftHandRef (useFrame d t tex (render s p))
         = smul (smoothLeftHandRef s) (1 - min (d * gestureTransitionSpeed (handSettings p) * 5) 1)
     \<and> smoothRightHandRef (useFrame d t tex (render s p))
         = smul (smoothRightHandRef s) (1 - min (d * gestureTransitionSpeed (handSettings p) * 5) 1)
     \<and> (gpuComputeRef s \<and> posVarRef s \<noteq> None \<and> gpuEnabledRef s \<and> velVarRef s \<noteq> None \<longrightarrow>
          map_option uLeftHand (velVarRef (useFrame d t tex (render s p)))
            = Some (smul (smoothLeftHandRef s)
                      (1 - min (d * gestureTransitionSpeed (handSettings p) * 5) 1))
        \<and> map_option uRightHand (velVarRef (useFrame d t tex (render s p)))
            = Some (smul (smoothRightHandRef s)
                      (1 - min (d * gestureTransitionSpeed (handSettings p) * 5) 1)))"
proof -
  define r where "r = render s p"
  define b where "b = beforeGPGPU d t r"
  define g where "g = frameGPGPU d t tex b"
  have rp: "rendered r = p" by (simp add: r_def render_rendered)
  have off: "\<not> enabled (handSettings (rendered r))" using assms by (simp add: rp)
  have sm: "smoothLeftHandRef b
      = smul (smoothLeftHandRef s) (1 - min (d * gestureTransitionSpeed (handSettings p) * 5) 1)"
    "smoothRightHandRef b
      = smul (smoothRightHandRef s) (1 - min (d * gestureTransitionSpeed (handSettings p) * 5) 1)"
    using beforeGPGPU_smooth [OF off, of d t]
    by (simp_all add: b_def r_def render_refs render_rendered)
  have u: "useFrame d t tex r = updateUniforms (frameAudio g)"
    by (simp add: useFrame_split g_def b_def)
  have rend: "rendered (frameAudio g) = p"
    by (simp add: g_def b_def frameAudio_fields frameGPGPU_fields beforeGPGPU_refs rp)
  have m: "uLeftHand (material (useFrame d t tex r)) = (0, 0, 0)"
    "uRightHand (material (useFrame d t tex r)) = (0, 0, 0)"
    using updateUniforms_hands [of "frameAudio g"] assms by (simp_all add: u rend)
  have s2: "smoothLeftHandRef (useFrame d t tex r) = smoothLeftHandRef b"
    "smoothRightHandRef (useFrame d t tex r) = smoothRightHandRef b"
    by (simp_all add: u g_def updateUniforms_refs frameAudio_refs frameGPGPU_refs)
  have v: "map_option uLeftHand (velVarRef (useFrame d t tex r)) = Some (smoothLeftHandRef b)
      \<and> map_option uRightHand (velVarRef (useFrame d t tex r)) = Some (smoothRightHandRef b)"
    if gp: "gpuComputeRef s \<and> posVarRef s \<noteq> None \<and> gpuEnabledRef s \<and> velVarRef s \<noteq> None"
  proof -
    obtain vu0 where "velVarRef s = Some vu0"
      using gp by (cases "velVarRef s") simp_all
    then have "gpuComputeRef b" "posVarRef b \<noteq> None" "gpuEnabledRef b" "velVarRef b = Some vu0"
      using gp by (simp_all add: b_def beforeGPGPU_refs r_def render_refs)
    then show ?thesis
      using frameGPGPU_on [of b vu0 d t tex]
      by (simp add: u g_def updateUniforms_refs frameAudio_refs)
  qed
  show ?thesis
    unfolding r_def [symmetric] using m s2 v by (simp only: sm) blast
qed

lemmas hand_defs = eval_nat_numeral handDisabled_def gpgpuReady_def handOn_def handOff_def
      gpgpuInit_def firstRender_def
      mount_def defaultProps_def render_def effectChange_def frame_def useFrame_def
      updateUniforms_def frameAudio_def frameGPGPU_def frameFloat_def frameSmoothing_def
      frameEffect_def frameHands_def lerp_def audioBand_def Let_def

text \<open>
  C7, as stated, fails for the GPGPU velocity pass.  On the first frame after the disable
  the material's hand uniform is \<open>(0, 0, 0)\<close>, but the velocity shader's left hand is the
  smoothed position \<open>(18.75, 0, 0)\<close>, and a frame later \<open>(14.0625, 0, 0)\<close>: a decaying,
  nonzero position that passes the shader's absent-hand test.
\<close>

theorem hand_disable_counterexample:
  "enabled (handSettings (rendered (run handDisabled 1 gpgpuReady)))
   \<and> map_option uLeftHand (velVarRef (run handDisabled 1 gpgpuReady)) = Some (25, 0, 0)
   \<and> \<not> enabled (handSettings (rendered (run handDisabled 2 gpgpuReady)))
   \<and> uLeftHand (material (run handDisabled 2 gpgpuReady)) = (0, 0, 0)
   \<and> map_option uLeftHand (velVarRef (run handDisabled 2 gpgpuReady)) = Some (75 / 4, 0, 0)
   \<and> map_option uLeftHand (velVarRef (run handDisabled 3 gpgpuReady)) = Some (225 / 16, 0, 0)
   \<and> uUseGPGPU (material (run handDisabled 3 gpgpuReady))
   \<and> vlength (75 / 4, 0, 0) > 0.001 \<and> vlength (225 / 16, 0, 0) > 0.001"
  by (simp add: hand_defs vlength_x_axis)

theorem hand_disable_frame_witness:
  "\<not> enabled (handSettings handOff)
   \<and> gpuComputeRef (run handDisabled 1 gpgpuReady)
   \<and> posVarRef (run handDisabled 1 gpgpuReady) \<noteq> None
   \<and> gpuEnabledRef (run handDisabled 1 gpgpuReady)
   \<and> velVarRef (run handDisabled 1 gpgpuReady) \<noteq> None
   \<and> smoothLeftHandRef (run handDisabled 1 gpgpuReady) = (25, 0, 0)
   \<and> uLeftHand (material (useFrame (1 / 10) (1 / 5) (\<lambda>c. (0, 0, 0))
         (render (run handDisabled 1 gpgpuReady) handOff))) = (0, 0, 0)
   \<and> map_option uLeftHand (velVarRef (useFrame (1 / 10) (1 / 5) (\<lambda>c. (0, 0, 0))
         (render (run handDisabled 1 gpgpuReady) handOff))) = Some (75 / 4, 0, 0)"
proof -
  have off: "\<not> enabled (handSettings handOff)"
    "gestureTransitionSpeed (handSettings handOff) = 1 / 2"
    by (simp_all add: handOff_def defaultProps_def)
  have g: "gpuComputeRef (run handDisabled 1 gpgpuReady)"
    "posVarRef (run handDisabled 1 gpgpuReady) \<noteq> None"
    "gpuEnabledRef (run handDisabled 1 gpgpuReady)"
    "velVarRef (run handDisabled 1 gpgpuReady) \<noteq> None"
    "smoothLeftHandRef (run handDisabled 1 gpgpuReady) = (25, 0, 0)"
    by (simp_all add: hand_defs)
  show ?thesis
    using hand_disable_frame [OF off(1), of "1 / 10" "1 / 5" "\<lambda>c. (0, 0, 0)"
        "run handDisabled 1 gpgpuReady"] off g
    by (simp del: run.simps)
qed

section \<open>GPGPU fallback\<close>


























end
